theory Spec2Isabelle
  imports Complex_Main
begin

section \<open>Python values\<close>

text \<open>
  A Python \<open>float\<close>. Finite doubles are idealised as the real number they denote;
  the three non-finite values are kept apart, because comparison and JSON
  serialisation treat them differently.
\<close>

datatype pyfloat = Fin real | PosInf | NegInf | NaN

text \<open>
  The generic structured values that \<open>json.loads\<close> produces and that the validating
  constructors consume: \<open>None\<close>, \<open>bool\<close>, \<open>int\<close>, \<open>float\<close>, \<open>str\<close>, \<open>list\<close> and
  \<open>dict\<close> with string keys. A \<open>dict\<close> keeps its insertion order.
\<close>

datatype pyval =
    PNone
  | PBool bool
  | PInt int
  | PFloat pyfloat
  | PStr string
  | PList "pyval list"
  | PDict "(string \<times> pyval) list"

text \<open>\<open>d.get(k)\<close> on a \<open>dict\<close>: the value stored under \<open>k\<close>, or \<open>None\<close>.\<close>

definition dict_get :: "(string \<times> pyval) list \<Rightarrow> string \<Rightarrow> pyval" where
  "dict_get d k = (case map_of d k of None \<Rightarrow> PNone | Some v \<Rightarrow> v)"

text \<open>Python truthiness, as tested by \<open>not v\<close>.\<close>

fun truthy :: "pyval \<Rightarrow> bool" where
  "truthy PNone = False"
| "truthy (PBool b) = b"
| "truthy (PInt i) = (i \<noteq> 0)"
| "truthy (PFloat f) = (f \<noteq> Fin 0)"
| "truthy (PStr s) = (s \<noteq> [])"
| "truthy (PList xs) = (xs \<noteq> [])"
| "truthy (PDict d) = (d \<noteq> [])"

text \<open>\<open>list\<close> and \<open>dict\<close> objects are unhashable and cannot be used as a dictionary key.\<close>

fun hashable :: "pyval \<Rightarrow> bool" where
  "hashable (PList xs) = False"
| "hashable (PDict d) = False"
| "hashable v = True"

section \<open>JSON text\<close>

text \<open>
  A text handed to \<open>json.loads\<close> either fails to parse or denotes one structured
  value. A text is therefore represented by what the parser makes of it.
\<close>

datatype wire = Rendered pyval | Unparsable

section \<open>Exceptions\<close>

text \<open>
  A location inside a structured value, as pydantic reports it, and one line of a
  pydantic \<open>ValidationError\<close>: the location and the error type.
\<close>

datatype loc_item = Key string | Idx nat

type_synonym verr = "loc_item list \<times> string"

text \<open>
  The exceptions that occur in \<open>validate.py\<close>. The message of a \<open>ValueError\<close> raised by
  the module is kept structurally: \<open>MissingEnvelopeField\<close> is the text of line 66,
  \<open>UnsupportedMessageType\<close> that of lines 71 and 130, \<open>UnsupportedModelType\<close> that of
  line 98, and \<open>ToModelFailed\<close> and \<open>FromModelFailed\<close> are the prefixes of lines 77 and
  113 followed by \<open>str(e)\<close> of the caught exception. \<open>IntegerTooLong\<close> and
  \<open>CircularReference\<close> are the two messages of the \<open>ValueError\<close> that \<open>json.dumps\<close>
  raises itself.
\<close>

datatype exn =
    JSONDecodeError
  | AttributeError string
  | TypeError
  | RecursionError
  | ValidationError "verr list"
  | OtherException string
  | ValueError msg
and msg =
    MissingEnvelopeField
  | UnsupportedMessageType pyval
  | UnsupportedModelType string
  | ToModelFailed exn
  | FromModelFailed exn
  | IntegerTooLong
  | CircularReference

fun is_ValueError :: "exn \<Rightarrow> bool" where
  "is_ValueError (ValueError m) = True"
| "is_ValueError e = False"

text \<open>\<open>json.loads\<close>.\<close>

fun json_loads :: "wire \<Rightarrow> exn + pyval" where
  "json_loads (Rendered v) = Inr v"
| "json_loads Unparsable = Inl JSONDecodeError"

section \<open>Python objects and \<open>json.dumps\<close>\<close>

text \<open>
  \<open>create_message\<close> hands to \<open>json.dumps\<close> whatever object its caller passes as
  \<open>data\<close>; the annotation \<open>Dict[str, Any]\<close> is not checked. An object is one of the
  values that \<open>json.dumps\<close> knows how to write (\<open>None\<close>, \<open>bool\<close>, \<open>int\<close>, \<open>float\<close>,
  \<open>str\<close>, \<open>list\<close>, \<open>tuple\<close>, \<open>dict\<close>), an instance of any other class, given by the
  name of the class (a member of \<open>BlockingType\<close>, a \<open>datetime\<close>, a \<open>set\<close>, a model), or
  a list or dict that contains itself.

  The key of a \<open>dict\<close> is a \<open>str\<close>, an \<open>int\<close>, a \<open>float\<close> (represented by the text of
  its \<open>repr\<close>, which is all that \<open>json.dumps\<close> uses of it), a \<open>bool\<close>, \<open>None\<close>, or a
  hashable object of another class, given by the name of the class.
\<close>

datatype pykey = KStr string | KInt int | KFloat string | KBool bool | KNone | KOther string

datatype pyobj =
    ONone
  | OBool bool
  | OInt int
  | OFloat pyfloat
  | OStr string
  | OList "pyobj list"
  | OTuple "pyobj list"
  | ODict "(pykey \<times> pyobj) list"
  | OInstance string
  | OCyclic

text \<open>
  Two limits of the running interpreter decide whether \<open>json.dumps\<close> succeeds:
  \<open>sys.get_int_max_str_digits()\<close>, the number of digits up to which an \<open>int\<close> is
  converted to text (0 switches the limit off), and the number of lists and dicts
  nested in each other that the recursion limit leaves to the encoder at the place of
  the call.
\<close>

record interpreter =
  int_max_str_digits :: nat
  nesting_limit :: nat

definition int_too_long :: "interpreter \<Rightarrow> int \<Rightarrow> bool" where
  "int_too_long I i = (int_max_str_digits I \<noteq> 0 \<and> 10 ^ int_max_str_digits I \<le> \<bar>i\<bar>)"

text \<open>\<open>int.__repr__\<close>: the decimal digits.\<close>

definition digit :: "nat \<Rightarrow> char" where
  "digit d = char_of (48 + d)"

fun nat_repr :: "nat \<Rightarrow> string" where
  "nat_repr n = (if n < 10 then [digit n] else nat_repr (n div 10) @ [digit (n mod 10)])"

definition int_repr :: "int \<Rightarrow> string" where
  "int_repr i = (if i < 0 then CHR ''-'' # nat_repr (nat (- i)) else nat_repr (nat i))"

text \<open>
  The text that \<open>json.dumps\<close> writes for a key: a \<open>str\<close> as it is, a number by its
  \<open>repr\<close>, \<open>True\<close>, \<open>False\<close> and \<open>None\<close> as \<open>true\<close>, \<open>false\<close> and \<open>null\<close>; any other
  key is a \<open>TypeError\<close>.
\<close>

fun key_text :: "interpreter \<Rightarrow> pykey \<Rightarrow> exn + string" where
  "key_text I (KStr s) = Inr s"
| "key_text I (KFloat t) = Inr t"
| "key_text I (KBool b) = Inr (if b then ''true'' else ''false'')"
| "key_text I KNone = Inr ''null''"
| "key_text I (KInt i) =
     (if int_too_long I i then Inl (ValueError IntegerTooLong) else Inr (int_repr i))"
| "key_text I (KOther c) = Inl TypeError"

text \<open>The items are written from left to right; the first exception ends the call.\<close>

fun first_error :: "(exn + 'a) list \<Rightarrow> exn + 'a list" where
  "first_error [] = Inr []"
| "first_error (Inl e # rs) = Inl e"
| "first_error (Inr a # rs) =
     (case first_error rs of Inl e \<Rightarrow> Inl e | Inr as \<Rightarrow> Inr (a # as))"

text \<open>
  Two keys of a \<open>dict\<close> may be written as the same text (\<open>1\<close> and \<open>'1'\<close>); the parser
  then keeps the place of the first and the value of the last, as \<open>d[k] = v\<close> does.
\<close>

fun dict_set :: "(string \<times> pyval) list \<Rightarrow> string \<Rightarrow> pyval \<Rightarrow> (string \<times> pyval) list" where
  "dict_set [] k v = [(k, v)]"
| "dict_set ((k', v') # d) k v = (if k' = k then (k, v) # d else (k', v') # dict_set d k v)"

definition dict_of_items :: "(string \<times> pyval) list \<Rightarrow> (string \<times> pyval) list" where
  "dict_of_items items = foldl (\<lambda>d (k, v). dict_set d k v) [] items"

text \<open>
  \<open>json.dumps(obj)\<close> with its default arguments: the structured value that the written
  text denotes, or the exception. \<open>k\<close> is the number of nested containers still
  allowed. A \<open>tuple\<close> is written as an array, \<open>nan\<close> and the infinities are written as
  \<open>NaN\<close>, \<open>Infinity\<close> and \<open>-Infinity\<close>, which \<open>json.loads\<close> reads back.
\<close>

fun json_encode :: "interpreter \<Rightarrow> nat \<Rightarrow> pyobj \<Rightarrow> exn + pyval" where
  "json_encode I k ONone = Inr PNone"
| "json_encode I k (OBool b) = Inr (PBool b)"
| "json_encode I k (OInt i) =
     (if int_too_long I i then Inl (ValueError IntegerTooLong) else Inr (PInt i))"
| "json_encode I k (OFloat f) = Inr (PFloat f)"
| "json_encode I k (OStr s) = Inr (PStr s)"
| "json_encode I k (OInstance c) = Inl TypeError"
| "json_encode I k OCyclic = Inl (ValueError CircularReference)"
| "json_encode I k (OList xs) =
     (if k = 0 then Inl RecursionError
      else (case first_error (map (json_encode I (k - 1)) xs) of
              Inl e \<Rightarrow> Inl e
            | Inr ys \<Rightarrow> Inr (PList ys)))"
| "json_encode I k (OTuple xs) =
     (if k = 0 then Inl RecursionError
      else (case first_error (map (json_encode I (k - 1)) xs) of
              Inl e \<Rightarrow> Inl e
            | Inr ys \<Rightarrow> Inr (PList ys)))"
| "json_encode I k (ODict d) =
     (if k = 0 then Inl RecursionError
      else (case first_error
                   (map (\<lambda>(a, v). case key_text I a of
                                     Inl e \<Rightarrow> Inl e
                                   | Inr s \<Rightarrow> (case json_encode I (k - 1) v of
                                                 Inl e \<Rightarrow> Inl e
                                               | Inr w \<Rightarrow> Inr (s, w))) d) of
              Inl e \<Rightarrow> Inl e
            | Inr items \<Rightarrow> Inr (PDict (dict_of_items items))))"

definition json_dumps :: "interpreter \<Rightarrow> pyobj \<Rightarrow> exn + wire" where
  "json_dumps I obj =
     (case json_encode I (nesting_limit I) obj of
        Inl e \<Rightarrow> Inl e
      | Inr v \<Rightarrow> Inr (Rendered v))"

text \<open>A structured value as a Python object.\<close>

primrec obj_of :: "pyval \<Rightarrow> pyobj" where
  "obj_of PNone = ONone"
| "obj_of (PBool b) = OBool b"
| "obj_of (PInt i) = OInt i"
| "obj_of (PFloat f) = OFloat f"
| "obj_of (PStr s) = OStr s"
| "obj_of (PList xs) = OList (map obj_of xs)"
| "obj_of (PDict d) = ODict (map (map_prod KStr obj_of) d)"

text \<open>
  The structured values within the two limits: every \<open>int\<close> has a text, at most \<open>k\<close>
  containers are nested, and the keys of every \<open>dict\<close> are distinct.
\<close>

fun json_plain :: "interpreter \<Rightarrow> nat \<Rightarrow> pyval \<Rightarrow> bool" where
  "json_plain I k (PInt i) = (\<not> int_too_long I i)"
| "json_plain I k (PList xs) = (k \<noteq> 0 \<and> list_all (json_plain I (k - 1)) xs)"
| "json_plain I k (PDict d) =
     (k \<noteq> 0 \<and> distinct (map fst d) \<and> list_all (\<lambda>(a, v). json_plain I (k - 1) v) d)"
| "json_plain I k v = True"

section \<open>Field validation (the pydantic contract used by \<open>common.py\<close>)\<close>

text \<open>
  A field validator returns the validated value or the lines of the
  \<open>ValidationError\<close>. \<open>at_loc\<close> puts a location in front of every line, \<open>errs\<close> reads the
  lines of a failed result.
\<close>

definition err :: "string \<Rightarrow> verr list + 'a" where
  "err t = Inl [([], t)]"

fun at_loc :: "loc_item \<Rightarrow> verr list + 'a \<Rightarrow> verr list + 'a" where
  "at_loc l (Inl es) = Inl (map (\<lambda>(p, t). (l # p, t)) es)"
| "at_loc l (Inr a) = Inr a"

fun errs :: "verr list + 'a \<Rightarrow> verr list" where
  "errs (Inl es) = es"
| "errs (Inr a) = []"

text \<open>
  In its default (lax) mode pydantic also reads numbers and booleans from strings.
  How a string is read is fixed by the library, not by this repository, and is taken
  as a parameter.
\<close>

record coercions =
  str_as_bool :: "string \<Rightarrow> bool option"
  str_as_int :: "string \<Rightarrow> int option"
  str_as_float :: "string \<Rightarrow> pyfloat option"

text \<open>Comparison of a float with a bound; every comparison with \<open>nan\<close> is false.\<close>

fun float_ge :: "pyfloat \<Rightarrow> real \<Rightarrow> bool" where
  "float_ge (Fin r) b = (b \<le> r)"
| "float_ge PosInf b = True"
| "float_ge NegInf b = False"
| "float_ge NaN b = False"

fun float_le :: "pyfloat \<Rightarrow> real \<Rightarrow> bool" where
  "float_le (Fin r) b = (r \<le> b)"
| "float_le PosInf b = False"
| "float_le NegInf b = True"
| "float_le NaN b = False"

text \<open>A field of type \<open>float\<close>, lax mode.\<close>

fun float_lax :: "coercions \<Rightarrow> pyval \<Rightarrow> verr list + pyfloat" where
  "float_lax C (PFloat f) = Inr f"
| "float_lax C (PInt i) = Inr (Fin (of_int i))"
| "float_lax C (PBool b) = Inr (Fin (if b then 1 else 0))"
| "float_lax C (PStr s) =
     (case str_as_float C s of Some f \<Rightarrow> Inr f | None \<Rightarrow> err ''float_parsing'')"
| "float_lax C v = err ''float_type''"

text \<open>\<open>Field(ge=..., le=...)\<close> on a float; an absent bound is \<open>None\<close>.\<close>

definition float_field ::
  "coercions \<Rightarrow> real option \<Rightarrow> real option \<Rightarrow> pyval \<Rightarrow> verr list + pyfloat" where
  "float_field C ge le v =
     (case float_lax C v of
        Inl e \<Rightarrow> Inl e
      | Inr f \<Rightarrow>
          (if (case le of Some b \<Rightarrow> \<not> float_le f b | None \<Rightarrow> False)
             then err ''less_than_equal''
           else if (case ge of Some b \<Rightarrow> \<not> float_ge f b | None \<Rightarrow> False)
             then err ''greater_than_equal''
           else Inr f))"

text \<open>A field of type \<open>int\<close> with \<open>Field(ge=...)\<close>, lax mode.\<close>

fun int_lax :: "coercions \<Rightarrow> pyval \<Rightarrow> verr list + int" where
  "int_lax C (PInt i) = Inr i"
| "int_lax C (PBool b) = Inr (if b then 1 else 0)"
| "int_lax C (PFloat (Fin r)) =
     (if r = of_int \<lfloor>r\<rfloor> then Inr \<lfloor>r\<rfloor> else err ''int_from_float'')"
| "int_lax C (PFloat f) = err ''finite_number''"
| "int_lax C (PStr s) =
     (case str_as_int C s of Some i \<Rightarrow> Inr i | None \<Rightarrow> err ''int_parsing'')"
| "int_lax C v = err ''int_type''"

definition int_field :: "coercions \<Rightarrow> int option \<Rightarrow> pyval \<Rightarrow> verr list + int" where
  "int_field C ge v =
     (case int_lax C v of
        Inl e \<Rightarrow> Inl e
      | Inr i \<Rightarrow>
          (if (case ge of Some b \<Rightarrow> \<not> b \<le> i | None \<Rightarrow> False)
             then err ''greater_than_equal''
           else Inr i))"

text \<open>A field of type \<open>str\<close>.\<close>

fun str_field :: "pyval \<Rightarrow> verr list + string" where
  "str_field (PStr s) = Inr s"
| "str_field v = err ''string_type''"

text \<open>A required field (\<open>Field(...)\<close>) and an \<open>Optional\<close> field with default \<open>None\<close>.\<close>

definition required ::
  "(string \<times> pyval) list \<Rightarrow> string \<Rightarrow> (pyval \<Rightarrow> verr list + 'a) \<Rightarrow> verr list + 'a" where
  "required d k v =
     (case map_of d k of
        None \<Rightarrow> Inl [([Key k], ''missing'')]
      | Some a \<Rightarrow> at_loc (Key k) (v a))"

definition optional ::
  "(string \<times> pyval) list \<Rightarrow> string \<Rightarrow> (pyval \<Rightarrow> verr list + 'a) \<Rightarrow> verr list + 'a option" where
  "optional d k v =
     (case map_of d k of
        None \<Rightarrow> Inr None
      | Some a \<Rightarrow>
          (if a = PNone then Inr None
           else (case at_loc (Key k) (v a) of Inl e \<Rightarrow> Inl e | Inr r \<Rightarrow> Inr (Some r))))"

text \<open>A field of type \<open>List[T]\<close>: every item is validated, all error lines are kept.\<close>

fun list_items :: "(pyval \<Rightarrow> verr list + 'a) \<Rightarrow> nat \<Rightarrow> pyval list \<Rightarrow> verr list + 'a list" where
  "list_items v i [] = Inr []"
| "list_items v i (a # as) =
     (case (at_loc (Idx i) (v a), list_items v (Suc i) as) of
        (Inr r, Inr rs) \<Rightarrow> Inr (r # rs)
      | (r, rs) \<Rightarrow> Inl (errs r @ errs rs))"

definition list_field :: "(pyval \<Rightarrow> verr list + 'a) \<Rightarrow> pyval \<Rightarrow> verr list + 'a list" where
  "list_field v a = (case a of PList xs \<Rightarrow> list_items v 0 xs | _ \<Rightarrow> err ''list_type'')"

section \<open>The models of \<open>common.py\<close>\<close>

subsection \<open>Enumerations\<close>

datatype BlockingType = NONE | SOFT | HARD

fun BlockingType_value :: "BlockingType \<Rightarrow> string" where
  "BlockingType_value NONE = ''NONE''"
| "BlockingType_value SOFT = ''SOFT''"
| "BlockingType_value HARD = ''HARD''"

datatype CorridorRefPoint = KINEMATICCENTER | CONTOUR

fun CorridorRefPoint_value :: "CorridorRefPoint \<Rightarrow> string" where
  "CorridorRefPoint_value KINEMATICCENTER = ''KINEMATICCENTER''"
| "CorridorRefPoint_value CONTOUR = ''CONTOUR''"

text \<open>A field whose type is an enumeration accepts the value of one of its members.\<close>

definition BlockingType_field :: "pyval \<Rightarrow> verr list + BlockingType" where
  "BlockingType_field v =
     (case v of
        PStr s \<Rightarrow>
          (if s = ''NONE'' then Inr NONE
           else if s = ''SOFT'' then Inr SOFT
           else if s = ''HARD'' then Inr HARD
           else err ''enum'')
      | _ \<Rightarrow> err ''enum'')"

definition CorridorRefPoint_field :: "pyval \<Rightarrow> verr list + CorridorRefPoint" where
  "CorridorRefPoint_field v =
     (case v of
        PStr s \<Rightarrow>
          (if s = ''KINEMATICCENTER'' then Inr KINEMATICCENTER
           else if s = ''CONTOUR'' then Inr CONTOUR
           else err ''enum'')
      | _ \<Rightarrow> err ''enum'')"

subsection \<open>\<open>ActionParameter\<close>\<close>

text \<open>
  The alternatives of \<open>Union[List[Any], bool, float, str, Dict[str, Any]]\<close>, in the
  order of the declaration.
\<close>

datatype alternative = Alt_List_Any | Alt_bool | Alt_float | Alt_str | Alt_Dict_str_Any

definition value_alternatives :: "alternative list" where
  "value_alternatives = [Alt_List_Any, Alt_bool, Alt_float, Alt_str, Alt_Dict_str_Any]"

fun alt_label :: "alternative \<Rightarrow> string" where
  "alt_label Alt_List_Any = ''list[any]''"
| "alt_label Alt_bool = ''bool''"
| "alt_label Alt_float = ''float''"
| "alt_label Alt_str = ''str''"
| "alt_label Alt_Dict_str_Any = ''dict[str,any]''"

text \<open>
  One alternative in strict mode: the value must have the shape of the alternative;
  the only conversion is from \<open>int\<close> to \<open>float\<close>.
\<close>

fun strict_alt :: "alternative \<Rightarrow> pyval \<Rightarrow> verr list + pyval" where
  "strict_alt Alt_List_Any (PList xs) = Inr (PList xs)"
| "strict_alt Alt_List_Any v = err ''list_type''"
| "strict_alt Alt_bool (PBool b) = Inr (PBool b)"
| "strict_alt Alt_bool v = err ''bool_type''"
| "strict_alt Alt_float (PFloat f) = Inr (PFloat f)"
| "strict_alt Alt_float (PInt i) = Inr (PFloat (Fin (of_int i)))"
| "strict_alt Alt_float v = err ''float_type''"
| "strict_alt Alt_str (PStr s) = Inr (PStr s)"
| "strict_alt Alt_str v = err ''string_type''"
| "strict_alt Alt_Dict_str_Any (PDict d) = Inr (PDict d)"
| "strict_alt Alt_Dict_str_Any v = err ''dict_type''"

text \<open>A field of type \<open>bool\<close>, lax mode.\<close>

fun bool_lax :: "coercions \<Rightarrow> pyval \<Rightarrow> verr list + bool" where
  "bool_lax C (PBool b) = Inr b"
| "bool_lax C (PInt i) =
     (if i = 0 then Inr False else if i = 1 then Inr True else err ''bool_parsing'')"
| "bool_lax C (PFloat f) =
     (if f = Fin 0 then Inr False else if f = Fin 1 then Inr True else err ''bool_parsing'')"
| "bool_lax C (PStr s) =
     (case str_as_bool C s of Some b \<Rightarrow> Inr b | None \<Rightarrow> err ''bool_parsing'')"
| "bool_lax C v = err ''bool_type''"

text \<open>One alternative in lax mode.\<close>

fun lax_alt :: "coercions \<Rightarrow> alternative \<Rightarrow> pyval \<Rightarrow> verr list + pyval" where
  "lax_alt C Alt_List_Any v = strict_alt Alt_List_Any v"
| "lax_alt C Alt_bool v =
     (case bool_lax C v of Inl e \<Rightarrow> Inl e | Inr b \<Rightarrow> Inr (PBool b))"
| "lax_alt C Alt_float v =
     (case float_lax C v of Inl e \<Rightarrow> Inl e | Inr f \<Rightarrow> Inr (PFloat f))"
| "lax_alt C Alt_str v = strict_alt Alt_str v"
| "lax_alt C Alt_Dict_str_Any v = strict_alt Alt_Dict_str_Any v"

fun first_ok :: "(verr list + 'a) list \<Rightarrow> 'a option" where
  "first_ok [] = None"
| "first_ok (Inr a # rs) = Some a"
| "first_ok (Inl e # rs) = first_ok rs"

text \<open>
  A union field (pydantic's smart mode): the alternatives are tried in their order in
  strict mode, then in their order in lax mode; the first success is the value. When
  every alternative fails, the error lines of all of them are reported.
\<close>

definition smart_union :: "coercions \<Rightarrow> alternative list \<Rightarrow> pyval \<Rightarrow> verr list + pyval" where
  "smart_union C alts v =
     (case first_ok (map (\<lambda>t. strict_alt t v) alts) of
        Some r \<Rightarrow> Inr r
      | None \<Rightarrow>
          (case first_ok (map (\<lambda>t. lax_alt C t v) alts) of
             Some r \<Rightarrow> Inr r
           | None \<Rightarrow> Inl (concat (map (\<lambda>t. errs (at_loc (Key (alt_label t)) (lax_alt C t v))) alts))))"

text \<open>The field \<open>value\<close> is named \<open>pvalue\<close> here.\<close>

record ActionParameter =
  key :: string
  pvalue :: pyval

definition validate_ActionParameter :: "coercions \<Rightarrow> pyval \<Rightarrow> verr list + ActionParameter" where
  "validate_ActionParameter C a =
     (case a of
        PDict d \<Rightarrow>
          (let k = required d ''key'' str_field;
               v = required d ''value'' (smart_union C value_alternatives)
           in case (k, v) of
                (Inr k', Inr v') \<Rightarrow> Inr \<lparr>key = k', pvalue = v'\<rparr>
              | _ \<Rightarrow> Inl (errs k @ errs v))
      | _ \<Rightarrow> err ''model_type'')"

subsection \<open>\<open>Action\<close>\<close>

record Action =
  actionType :: string
  actionId :: string
  actionDescription :: "string option"
  blockingType :: BlockingType
  actionParameters :: "ActionParameter list option"

definition validate_Action :: "coercions \<Rightarrow> pyval \<Rightarrow> verr list + Action" where
  "validate_Action C a =
     (case a of
        PDict d \<Rightarrow>
          (let t = required d ''actionType'' str_field;
               i = required d ''actionId'' str_field;
               ds = optional d ''actionDescription'' str_field;
               b = required d ''blockingType'' BlockingType_field;
               ps = optional d ''actionParameters'' (list_field (validate_ActionParameter C))
           in case (t, i, ds, b, ps) of
                (Inr t', Inr i', Inr ds', Inr b', Inr ps') \<Rightarrow>
                  Inr \<lparr>actionType = t', actionId = i', actionDescription = ds',
                       blockingType = b', actionParameters = ps'\<rparr>
              | _ \<Rightarrow> Inl (errs t @ errs i @ errs ds @ errs b @ errs ps))
      | _ \<Rightarrow> err ''model_type'')"

subsection \<open>\<open>NodePosition\<close>\<close>

text \<open>The fields \<open>x\<close> and \<open>y\<close> are named \<open>pos_x\<close> and \<open>pos_y\<close> here.\<close>

record NodePosition =
  pos_x :: pyfloat
  pos_y :: pyfloat
  theta :: "pyfloat option"
  allowedDeviationXY :: "pyfloat option"
  allowedDeviationTheta :: "pyfloat option"
  mapId :: string
  mapDescription :: "string option"

definition validate_NodePosition :: "coercions \<Rightarrow> pyval \<Rightarrow> verr list + NodePosition" where
  "validate_NodePosition C a =
     (case a of
        PDict d \<Rightarrow>
          (let px = required d ''x'' (float_field C None None);
               py = required d ''y'' (float_field C None None);
               th = optional d ''theta''
                      (float_field C (Some (- 3.14159265359)) (Some 3.14159265359));
               dxy = optional d ''allowedDeviationXY'' (float_field C (Some 0.0) None);
               dth = optional d ''allowedDeviationTheta''
                      (float_field C (Some 0.0) (Some 3.141592654));
               mi = required d ''mapId'' str_field;
               md = optional d ''mapDescription'' str_field
           in case (px, py, th, dxy, dth, mi, md) of
                (Inr px', Inr py', Inr th', Inr dxy', Inr dth', Inr mi', Inr md') \<Rightarrow>
                  Inr \<lparr>pos_x = px', pos_y = py', theta = th', allowedDeviationXY = dxy',
                       allowedDeviationTheta = dth', mapId = mi', mapDescription = md'\<rparr>
              | _ \<Rightarrow> Inl (errs px @ errs py @ errs th @ errs dxy @ errs dth @ errs mi @ errs md))
      | _ \<Rightarrow> err ''model_type'')"

subsection \<open>\<open>ControlPoint\<close>\<close>

text \<open>The fields \<open>x\<close> and \<open>y\<close> are named \<open>cp_x\<close> and \<open>cp_y\<close> here.\<close>

record ControlPoint =
  cp_x :: pyfloat
  cp_y :: pyfloat
  weight :: "pyfloat option"

definition validate_ControlPoint :: "coercions \<Rightarrow> pyval \<Rightarrow> verr list + ControlPoint" where
  "validate_ControlPoint C a =
     (case a of
        PDict d \<Rightarrow>
          (let px = required d ''x'' (float_field C None None);
               py = required d ''y'' (float_field C None None);
               w = optional d ''weight'' (float_field C (Some 0.0) None)
           in case (px, py, w) of
                (Inr px', Inr py', Inr w') \<Rightarrow> Inr \<lparr>cp_x = px', cp_y = py', weight = w'\<rparr>
              | _ \<Rightarrow> Inl (errs px @ errs py @ errs w))
      | _ \<Rightarrow> err ''model_type'')"

subsection \<open>\<open>Trajectory\<close>\<close>

record Trajectory =
  degree :: int
  knotVector :: "pyfloat list"
  controlPoints :: "ControlPoint list"

definition validate_Trajectory :: "coercions \<Rightarrow> pyval \<Rightarrow> verr list + Trajectory" where
  "validate_Trajectory C a =
     (case a of
        PDict d \<Rightarrow>
          (let dg = required d ''degree'' (int_field C (Some 1));
               kv = required d ''knotVector'' (list_field (float_field C None None));
               cps = required d ''controlPoints'' (list_field (validate_ControlPoint C))
           in case (dg, kv, cps) of
                (Inr dg', Inr kv', Inr cps') \<Rightarrow>
                  Inr \<lparr>degree = dg', knotVector = kv', controlPoints = cps'\<rparr>
              | _ \<Rightarrow> Inl (errs dg @ errs kv @ errs cps))
      | _ \<Rightarrow> err ''model_type'')"

subsection \<open>\<open>Corridor\<close>\<close>

record Corridor =
  leftWidth :: pyfloat
  rightWidth :: pyfloat
  corridorRefPoint :: "CorridorRefPoint option"

definition validate_Corridor :: "coercions \<Rightarrow> pyval \<Rightarrow> verr list + Corridor" where
  "validate_Corridor C a =
     (case a of
        PDict d \<Rightarrow>
          (let l = required d ''leftWidth'' (float_field C (Some 0.0) None);
               r = required d ''rightWidth'' (float_field C (Some 0.0) None);
               p = optional d ''corridorRefPoint'' CorridorRefPoint_field
           in case (l, r, p) of
                (Inr l', Inr r', Inr p') \<Rightarrow>
                  Inr \<lparr>leftWidth = l', rightWidth = r', corridorRefPoint = p'\<rparr>
              | _ \<Rightarrow> Inl (errs l @ errs r @ errs p))
      | _ \<Rightarrow> err ''model_type'')"

section \<open>Serialisation (\<open>json.loads(model.model_dump_json())\<close>)\<close>

text \<open>
  \<open>model_dump_json\<close> writes every field under its name, \<open>None\<close> as \<open>null\<close>, a member of
  an enumeration as its value, and a float that is not finite as \<open>null\<close>. The
  functions below give the structured value that \<open>json.loads\<close> reads back from that
  text.
\<close>

fun json_float :: "pyfloat \<Rightarrow> pyval" where
  "json_float (Fin r) = PFloat (Fin r)"
| "json_float f = PNone"

primrec json_any :: "pyval \<Rightarrow> pyval" where
  "json_any PNone = PNone"
| "json_any (PBool b) = PBool b"
| "json_any (PInt i) = PInt i"
| "json_any (PFloat f) = json_float f"
| "json_any (PStr s) = PStr s"
| "json_any (PList xs) = PList (map json_any xs)"
| "json_any (PDict d) = PDict (map (map_prod id json_any) d)"

definition json_opt :: "('a \<Rightarrow> pyval) \<Rightarrow> 'a option \<Rightarrow> pyval" where
  "json_opt f v = (case v of None \<Rightarrow> PNone | Some a \<Rightarrow> f a)"

definition dump_ActionParameter :: "ActionParameter \<Rightarrow> pyval" where
  "dump_ActionParameter p =
     PDict [(''key'', PStr (key p)), (''value'', json_any (pvalue p))]"

definition dump_Action :: "Action \<Rightarrow> pyval" where
  "dump_Action a =
     PDict [(''actionType'', PStr (actionType a)),
            (''actionId'', PStr (actionId a)),
            (''actionDescription'', json_opt PStr (actionDescription a)),
            (''blockingType'', PStr (BlockingType_value (blockingType a))),
            (''actionParameters'',
               json_opt (\<lambda>ps. PList (map dump_ActionParameter ps)) (actionParameters a))]"

definition dump_NodePosition :: "NodePosition \<Rightarrow> pyval" where
  "dump_NodePosition n =
     PDict [(''x'', json_float (pos_x n)),
            (''y'', json_float (pos_y n)),
            (''theta'', json_opt json_float (theta n)),
            (''allowedDeviationXY'', json_opt json_float (allowedDeviationXY n)),
            (''allowedDeviationTheta'', json_opt json_float (allowedDeviationTheta n)),
            (''mapId'', PStr (mapId n)),
            (''mapDescription'', json_opt PStr (mapDescription n))]"

definition dump_ControlPoint :: "ControlPoint \<Rightarrow> pyval" where
  "dump_ControlPoint c =
     PDict [(''x'', json_float (cp_x c)),
            (''y'', json_float (cp_y c)),
            (''weight'', json_opt json_float (weight c))]"

definition dump_Trajectory :: "Trajectory \<Rightarrow> pyval" where
  "dump_Trajectory t =
     PDict [(''degree'', PInt (degree t)),
            (''knotVector'', PList (map json_float (knotVector t))),
            (''controlPoints'', PList (map dump_ControlPoint (controlPoints t)))]"

definition dump_Corridor :: "Corridor \<Rightarrow> pyval" where
  "dump_Corridor c =
     PDict [(''leftWidth'', json_float (leftWidth c)),
            (''rightWidth'', json_float (rightWidth c)),
            (''corridorRefPoint'',
               json_opt (\<lambda>p. PStr (CorridorRefPoint_value p)) (corridorRefPoint c))]"

section \<open>\<open>validate.py\<close>\<close>

text \<open>
  The classes imported from \<open>order.py\<close>, \<open>state.py\<close>, \<open>instantActions.py\<close> and
  \<open>connection.py\<close>. These modules are not among the sources, so what
  \<open>model_validate\<close> and \<open>model_dump_json\<close> do for their classes is a parameter; \<open>'x\<close>
  is the type of their instances.
\<close>

datatype imported = OrderMessage | Node | Edge | State | InstantActions | Connection

fun imported_name :: "imported \<Rightarrow> string" where
  "imported_name OrderMessage = ''OrderMessage''"
| "imported_name Node = ''Node''"
| "imported_name Edge = ''Edge''"
| "imported_name State = ''State''"
| "imported_name InstantActions = ''InstantActions''"
| "imported_name Connection = ''Connection''"

record 'x modules =
  imported_validate :: "imported \<Rightarrow> pyval \<Rightarrow> exn + 'x"
  imported_dump :: "imported \<Rightarrow> 'x \<Rightarrow> exn + pyval"

text \<open>The class objects stored in the registry.\<close>

datatype model_class =
    Cls_Action
  | Cls_ActionParameter
  | Cls_BlockingType
  | Cls_ControlPoint
  | Cls_Corridor
  | Cls_CorridorRefPoint
  | Cls_NodePosition
  | Cls_Trajectory
  | Cls_Imported imported

definition MODEL_TYPE_MAP :: "(string \<times> model_class) list" where
  "MODEL_TYPE_MAP =
     [(''Action'', Cls_Action),
      (''ActionParameter'', Cls_ActionParameter),
      (''BlockingType'', Cls_BlockingType),
      (''ControlPoint'', Cls_ControlPoint),
      (''Corridor'', Cls_Corridor),
      (''CorridorRefPoint'', Cls_CorridorRefPoint),
      (''NodePosition'', Cls_NodePosition),
      (''Trajectory'', Cls_Trajectory),
      (''OrderMessage'', Cls_Imported OrderMessage),
      (''Node'', Cls_Imported Node),
      (''Edge'', Cls_Imported Edge),
      (''State'', Cls_Imported State),
      (''InstantActions'', Cls_Imported InstantActions),
      (''Connection'', Cls_Imported Connection)]"

text \<open>The keys of the registry.\<close>

definition registered_names :: "string set" where
  "registered_names = fst ` set MODEL_TYPE_MAP"

text \<open>
  The objects handed to \<open>from_model\<close>: an instance of a class of \<open>common.py\<close>, an
  instance of an imported class, or an object of any other class, given by the name
  of its class and by what \<open>json.loads(model.model_dump_json())\<close> does on it.
\<close>

datatype 'x entity =
    E_Action Action
  | E_ActionParameter ActionParameter
  | E_BlockingType BlockingType
  | E_ControlPoint ControlPoint
  | E_Corridor Corridor
  | E_CorridorRefPoint CorridorRefPoint
  | E_NodePosition NodePosition
  | E_Trajectory Trajectory
  | E_Imported imported 'x
  | E_Foreign string "exn + pyval"

text \<open>\<open>model.__class__.__name__\<close>.\<close>

fun class_name :: "'x entity \<Rightarrow> string" where
  "class_name (E_Action a) = ''Action''"
| "class_name (E_ActionParameter p) = ''ActionParameter''"
| "class_name (E_BlockingType b) = ''BlockingType''"
| "class_name (E_ControlPoint c) = ''ControlPoint''"
| "class_name (E_Corridor c) = ''Corridor''"
| "class_name (E_CorridorRefPoint p) = ''CorridorRefPoint''"
| "class_name (E_NodePosition n) = ''NodePosition''"
| "class_name (E_Trajectory t) = ''Trajectory''"
| "class_name (E_Imported c x) = imported_name c"
| "class_name (E_Foreign n r) = n"

text \<open>
  \<open>model_class.model_validate(data)\<close>. The two enumerations are \<open>Enum\<close> classes and
  have no attribute \<open>model_validate\<close>.
\<close>

definition lift_validation :: "('a \<Rightarrow> 'x entity) \<Rightarrow> verr list + 'a \<Rightarrow> exn + 'x entity" where
  "lift_validation E r = (case r of Inl es \<Rightarrow> Inl (ValidationError es) | Inr a \<Rightarrow> Inr (E a))"

fun model_validate :: "coercions \<Rightarrow> 'x modules \<Rightarrow> model_class \<Rightarrow> pyval \<Rightarrow> exn + 'x entity" where
  "model_validate C M Cls_Action data = lift_validation E_Action (validate_Action C data)"
| "model_validate C M Cls_ActionParameter data =
     lift_validation E_ActionParameter (validate_ActionParameter C data)"
| "model_validate C M Cls_BlockingType data = Inl (AttributeError ''model_validate'')"
| "model_validate C M Cls_ControlPoint data =
     lift_validation E_ControlPoint (validate_ControlPoint C data)"
| "model_validate C M Cls_Corridor data = lift_validation E_Corridor (validate_Corridor C data)"
| "model_validate C M Cls_CorridorRefPoint data = Inl (AttributeError ''model_validate'')"
| "model_validate C M Cls_NodePosition data =
     lift_validation E_NodePosition (validate_NodePosition C data)"
| "model_validate C M Cls_Trajectory data =
     lift_validation E_Trajectory (validate_Trajectory C data)"
| "model_validate C M (Cls_Imported c) data =
     (case imported_validate M c data of Inl e \<Rightarrow> Inl e | Inr x \<Rightarrow> Inr (E_Imported c x))"

text \<open>
  \<open>json.loads(model.model_dump_json())\<close>. A member of an enumeration has no attribute
  \<open>model_dump_json\<close>.
\<close>

fun model_dump_json :: "'x modules \<Rightarrow> 'x entity \<Rightarrow> exn + pyval" where
  "model_dump_json M (E_Action a) = Inr (dump_Action a)"
| "model_dump_json M (E_ActionParameter p) = Inr (dump_ActionParameter p)"
| "model_dump_json M (E_BlockingType b) = Inl (AttributeError ''model_dump_json'')"
| "model_dump_json M (E_ControlPoint c) = Inr (dump_ControlPoint c)"
| "model_dump_json M (E_Corridor c) = Inr (dump_Corridor c)"
| "model_dump_json M (E_CorridorRefPoint p) = Inl (AttributeError ''model_dump_json'')"
| "model_dump_json M (E_NodePosition n) = Inr (dump_NodePosition n)"
| "model_dump_json M (E_Trajectory t) = Inr (dump_Trajectory t)"
| "model_dump_json M (E_Imported c x) = imported_dump M c x"
| "model_dump_json M (E_Foreign n r) = r"

text \<open>\<open>MODEL_TYPE_MAP.get(message_type)\<close>: only a string can be equal to a key.\<close>

fun registry_get :: "pyval \<Rightarrow> model_class option" where
  "registry_get (PStr s) = map_of MODEL_TYPE_MAP s"
| "registry_get v = None"

text \<open>The body of the \<open>try\<close> block of \<open>to_model\<close>, lines 59 to 74.\<close>

definition to_model_try :: "coercions \<Rightarrow> 'x modules \<Rightarrow> wire \<Rightarrow> exn + 'x entity" where
  "to_model_try C M json_str =
     (case json_loads json_str of
        Inl e \<Rightarrow> Inl e
      | Inr message \<Rightarrow>
          (case message of
             PDict d \<Rightarrow>
               (let message_type = dict_get d ''message_type'';
                    data = dict_get d ''data''
                in if \<not> truthy message_type \<or> \<not> truthy data
                     then Inl (ValueError MissingEnvelopeField)
                   else if \<not> hashable message_type then Inl TypeError
                   else (case registry_get message_type of
                           None \<Rightarrow> Inl (ValueError (UnsupportedMessageType message_type))
                         | Some model_class \<Rightarrow> model_validate C M model_class data))
           | _ \<Rightarrow> Inl (AttributeError ''get'')))"

definition to_model :: "coercions \<Rightarrow> 'x modules \<Rightarrow> wire \<Rightarrow> exn + 'x entity" where
  "to_model C M json_str =
     (case to_model_try C M json_str of
        Inl e \<Rightarrow> Inl (ValueError (ToModelFailed e))
      | Inr model \<Rightarrow> Inr model)"

text \<open>The body of the \<open>try\<close> block of \<open>from_model\<close>, lines 94 to 110.\<close>

definition from_model_try :: "interpreter \<Rightarrow> 'x modules \<Rightarrow> 'x entity \<Rightarrow> exn + wire" where
  "from_model_try I M model =
     (let model_type = class_name model
      in if map_of MODEL_TYPE_MAP model_type = None
           then Inl (ValueError (UnsupportedModelType model_type))
         else (case model_dump_json M model of
                 Inl e \<Rightarrow> Inl e
               | Inr model_data \<Rightarrow>
                   json_dumps I
                     (ODict [(KStr ''message_type'', OStr model_type),
                             (KStr ''data'', obj_of model_data)])))"

definition from_model :: "interpreter \<Rightarrow> 'x modules \<Rightarrow> 'x entity \<Rightarrow> exn + wire" where
  "from_model I M model =
     (case from_model_try I M model of
        Inl e \<Rightarrow> Inl (ValueError (FromModelFailed e))
      | Inr json_str \<Rightarrow> Inr json_str)"

text \<open>
  \<open>create_message\<close>, lines 129 to 137. There is no \<open>try\<close> here: an exception of
  \<open>json.dumps\<close> leaves the function as it is.
\<close>

definition create_message :: "interpreter \<Rightarrow> string \<Rightarrow> pyobj \<Rightarrow> exn + wire" where
  "create_message I message_type data =
     (if map_of MODEL_TYPE_MAP message_type = None
        then Inl (ValueError (UnsupportedMessageType (PStr message_type)))
      else json_dumps I (ODict [(KStr ''message_type'', OStr message_type), (KStr ''data'', data)]))"

text \<open>\<open>get_model_class\<close> has no \<open>raise\<close>: it returns the class or \<open>None\<close>.\<close>

definition get_model_class :: "string \<Rightarrow> exn + model_class option" where
  "get_model_class message_type = Inr (map_of MODEL_TYPE_MAP message_type)"

section \<open>Entities that their dump keeps\<close>

text \<open>
  \<open>model_dump_json\<close> writes a float that is not finite as \<open>null\<close>. The predicates below
  say that no float of an entity is lost in this way: every float field is finite,
  and the free-form \<open>value\<close> of an \<open>ActionParameter\<close> is written as it is.
\<close>

fun finite_float :: "pyfloat \<Rightarrow> bool" where
  "finite_float (Fin r) = True"
| "finite_float f = False"

definition finite_opt :: "pyfloat option \<Rightarrow> bool" where
  "finite_opt v = (case v of None \<Rightarrow> True | Some f \<Rightarrow> finite_float f)"

definition finite_ActionParameter :: "ActionParameter \<Rightarrow> bool" where
  "finite_ActionParameter p = (json_any (pvalue p) = pvalue p)"

definition finite_Action :: "Action \<Rightarrow> bool" where
  "finite_Action a =
     (case actionParameters a of None \<Rightarrow> True | Some ps \<Rightarrow> list_all finite_ActionParameter ps)"

definition finite_NodePosition :: "NodePosition \<Rightarrow> bool" where
  "finite_NodePosition n =
     (finite_float (pos_x n) \<and> finite_float (pos_y n) \<and> finite_opt (theta n) \<and>
      finite_opt (allowedDeviationXY n) \<and> finite_opt (allowedDeviationTheta n))"

definition finite_ControlPoint :: "ControlPoint \<Rightarrow> bool" where
  "finite_ControlPoint c =
     (finite_float (cp_x c) \<and> finite_float (cp_y c) \<and> finite_opt (weight c))"

definition finite_Trajectory :: "Trajectory \<Rightarrow> bool" where
  "finite_Trajectory t =
     (list_all finite_float (knotVector t) \<and> list_all finite_ControlPoint (controlPoints t))"

definition finite_Corridor :: "Corridor \<Rightarrow> bool" where
  "finite_Corridor c = (finite_float (leftWidth c) \<and> finite_float (rightWidth c))"

text \<open>
  For an instance of an imported class the same is asked of the class itself: its
  dump is not empty and its validating constructor reads the dump back as the
  instance. A member of an enumeration and an object of a foreign class have no
  dump.
\<close>

fun keeps_values :: "'x modules \<Rightarrow> 'x entity \<Rightarrow> bool" where
  "keeps_values M (E_Action a) = finite_Action a"
| "keeps_values M (E_ActionParameter p) = finite_ActionParameter p"
| "keeps_values M (E_ControlPoint c) = finite_ControlPoint c"
| "keeps_values M (E_Corridor c) = finite_Corridor c"
| "keeps_values M (E_NodePosition n) = finite_NodePosition n"
| "keeps_values M (E_Trajectory t) = finite_Trajectory t"
| "keeps_values M (E_Imported c x) =
     (case imported_dump M c x of
        Inl e \<Rightarrow> False
      | Inr d \<Rightarrow> truthy d \<and> imported_validate M c d = Inr x)"
| "keeps_values M e = False"

text \<open>The dump of an entity is within the limits of the interpreter, inside the envelope.\<close>

definition dump_within_limits :: "interpreter \<Rightarrow> 'x modules \<Rightarrow> 'x entity \<Rightarrow> bool" where
  "dump_within_limits I M e =
     (case model_dump_json M e of
        Inl x \<Rightarrow> False
      | Inr d \<Rightarrow> nesting_limit I \<noteq> 0 \<and> json_plain I (nesting_limit I - 1) d)"

section \<open>Concrete parameters\<close>

text \<open>
  Instances of the parameters, for evaluating the functions at concrete inputs:
  a library that reads no string as a number or boolean, imported classes whose
  methods raise, and an interpreter with the digit limit that CPython has by default
  and room for 500 nested containers.
\<close>

definition no_coercions :: coercions where
  "no_coercions =
     \<lparr>str_as_bool = (\<lambda>s. None), str_as_int = (\<lambda>s. None), str_as_float = (\<lambda>s. None)\<rparr>"

definition no_modules :: "unit modules" where
  "no_modules =
     \<lparr>imported_validate = (\<lambda>c d. Inl (OtherException ''imported'')),
      imported_dump = (\<lambda>c x. Inl (OtherException ''imported''))\<rparr>"

definition sample_interpreter :: interpreter where
  "sample_interpreter = \<lparr>int_max_str_digits = 4300, nesting_limit = 500\<rparr>"

section \<open>The registry\<close>

lemma registered_names_eq:
  "registered_names =
     {''Action'', ''ActionParameter'', ''BlockingType'', ''ControlPoint'', ''Corridor'',
      ''CorridorRefPoint'', ''NodePosition'', ''Trajectory'', ''OrderMessage'', ''Node'',
      ''Edge'', ''State'', ''InstantActions'', ''Connection''}"
  by (simp add: registered_names_def MODEL_TYPE_MAP_def)

lemma registry_keys: "map_of MODEL_TYPE_MAP name \<noteq> None \<longleftrightarrow> name \<in> registered_names"
  by (simp add: registered_names_def map_of_eq_None_iff)

text \<open>
  Claim C2, as the code has it: \<open>get_model_class\<close> never raises; it returns a class
  exactly for the fourteen keys of the registry and \<open>None\<close> for every other name.
\<close>

theorem get_model_class_registered:
  "get_model_class name = Inr (map_of MODEL_TYPE_MAP name) \<and>
   ((\<exists>c. get_model_class name = Inr (Some c)) \<longleftrightarrow> name \<in> registered_names) \<and>
   registered_names =
     {''Action'', ''ActionParameter'', ''BlockingType'', ''ControlPoint'', ''Corridor'',
      ''CorridorRefPoint'', ''NodePosition'', ''Trajectory'', ''OrderMessage'', ''Node'',
      ''Edge'', ''State'', ''InstantActions'', ''Connection''}"
proof -
  have "(\<exists>c. map_of MODEL_TYPE_MAP name = Some c) \<longleftrightarrow> name \<in> registered_names"
    using registry_keys [of name] by blast
  then show ?thesis
    by (simp add: get_model_class_def registered_names_eq [symmetric])
qed

text \<open>
  Claim C2 as stated fails: the lookup of an unregistered name returns \<open>None\<close> and
  raises nothing, and the names \<open>AgvFactsheet\<close> and \<open>Visualization\<close> are not keys of
  the registry.
\<close>

theorem get_model_class_counterexample:
  "get_model_class ''NotAType'' = Inr None \<and>
   get_model_class ''AgvFactsheet'' = Inr None \<and>
   get_model_class ''Visualization'' = Inr None"
  by (simp add: get_model_class_def MODEL_TYPE_MAP_def)

section \<open>\<open>json.dumps\<close>\<close>

lemma dict_set_fresh: "k \<notin> fst ` set d \<Longrightarrow> dict_set d k v = d @ [(k, v)]"
  by (induction d) auto

lemma foldl_dict_set_distinct:
  "distinct (map fst (acc @ items)) \<Longrightarrow>
     foldl (\<lambda>d (k, v). dict_set d k v) acc items = acc @ items"
proof (induction items arbitrary: acc)
  case Nil
  then show ?case by simp
next
  case (Cons kv items)
  obtain k v where kv: "kv = (k, v)" by (cases kv)
  have f: "k \<notin> fst ` set acc"
    using Cons.prems kv by auto
  have d: "distinct (map fst ((acc @ [(k, v)]) @ items))"
    using Cons.prems kv by simp
  show ?case
    using Cons.IH [OF d] by (simp add: kv dict_set_fresh [OF f])
qed

lemma dict_of_items_distinct: "distinct (map fst items) \<Longrightarrow> dict_of_items items = items"
  using foldl_dict_set_distinct [of "[]" items] by (simp add: dict_of_items_def)

lemma first_error_all_ok:
  "(\<And>x. x \<in> set xs \<Longrightarrow> f x = Inr (g x)) \<Longrightarrow> first_error (map f xs) = Inr (map g xs)"
  by (induction xs) simp_all

lemma first_error_member: "first_error rs = Inl e \<Longrightarrow> Inl e \<in> set rs"
proof (induction rs)
  case Nil
  then show ?case by simp
next
  case (Cons r rs)
  then show ?case
    by (cases r) (auto split: sum.splits)
qed

text \<open>A structured value within the limits is written as a text that denotes it.\<close>

lemma json_encode_plain: "json_plain I k v \<Longrightarrow> json_encode I k (obj_of v) = Inr v"
proof (induction v arbitrary: k)
  case (PList xs)
  have k: "k \<noteq> 0"
    using PList.prems by simp
  have "first_error (map (json_encode I (k - 1)) (map obj_of xs)) = Inr (map (\<lambda>x. x) xs)"
    unfolding map_map
    by (rule first_error_all_ok) (use PList in \<open>simp add: list_all_iff\<close>)
  then show ?case
    using k by simp
next
  case (PDict d)
  have k: "k \<noteq> 0" and dist: "distinct (map fst d)"
    using PDict.prems by simp_all
  have "first_error
          (map (\<lambda>(a, v). case key_text I a of
                            Inl e \<Rightarrow> Inl e
                          | Inr s \<Rightarrow> (case json_encode I (k - 1) v of
                                        Inl e \<Rightarrow> Inl e
                                      | Inr w \<Rightarrow> Inr (s, w))) (map (map_prod KStr obj_of) d)) =
        Inr (map (\<lambda>x. x) d)"
    unfolding map_map
  proof (rule first_error_all_ok)
    fix x
    assume x: "x \<in> set d"
    obtain a v where av: "x = (a, v)" by (cases x)
    have "json_plain I (k - 1) v"
      using PDict.prems x av by (auto simp: list_all_iff)
    moreover have "v \<in> Basic_BNFs.snds x"
      using av by simp
    ultimately have "json_encode I (k - 1) (obj_of v) = Inr v"
      using PDict.IH x by blast
    then show "((\<lambda>(a, v). case key_text I a of
                            Inl e \<Rightarrow> Inl e
                          | Inr s \<Rightarrow> (case json_encode I (k - 1) v of
                                        Inl e \<Rightarrow> Inl e
                                      | Inr w \<Rightarrow> Inr (s, w))) \<circ> map_prod KStr obj_of) x = Inr x"
      by (simp add: av)
  qed
  then show ?case
    using k dist by (simp add: dict_of_items_distinct)
qed simp_all

text \<open>The exceptions of \<open>json.dumps\<close>.\<close>

lemma json_encode_errors:
  "json_encode I k obj = Inl e \<Longrightarrow>
     e = TypeError \<or> e = RecursionError \<or> e = ValueError IntegerTooLong \<or>
     e = ValueError CircularReference"
proof (induction I k obj arbitrary: e rule: json_encode.induct)
  case (8 I k xs)
  show ?case
  proof (cases "k = 0")
    case True
    then show ?thesis using 8(2) by simp
  next
    case False
    then have "first_error (map (json_encode I (k - 1)) xs) = Inl e"
      using 8(2) by (simp split: sum.splits)
    then have "Inl e \<in> set (map (json_encode I (k - 1)) xs)"
      by (rule first_error_member)
    then obtain x where "x \<in> set xs" and "json_encode I (k - 1) x = Inl e"
      by auto
    then show ?thesis
      using 8(1) False by blast
  qed
next
  case (9 I k xs)
  show ?case
  proof (cases "k = 0")
    case True
    then show ?thesis using 9(2) by simp
  next
    case False
    then have "first_error (map (json_encode I (k - 1)) xs) = Inl e"
      using 9(2) by (simp split: sum.splits)
    then have "Inl e \<in> set (map (json_encode I (k - 1)) xs)"
      by (rule first_error_member)
    then obtain x where "x \<in> set xs" and "json_encode I (k - 1) x = Inl e"
      by auto
    then show ?thesis
      using 9(1) False by blast
  qed
next
  case (10 I k d)
  let ?f = "\<lambda>(a, v). case key_text I a of
                       Inl e \<Rightarrow> Inl e
                     | Inr s \<Rightarrow> (case json_encode I (k - 1) v of
                                   Inl e \<Rightarrow> Inl e
                                 | Inr w \<Rightarrow> Inr (s, w))"
  show ?case
  proof (cases "k = 0")
    case True
    then show ?thesis using 10(2) by simp
  next
    case False
    then have "first_error (map ?f d) = Inl e"
      using 10(2) by (simp split: sum.splits)
    then have "Inl e \<in> set (map ?f d)"
      by (rule first_error_member)
    then obtain a v where av: "(a, v) \<in> set d" and fe: "?f (a, v) = Inl e"
      by auto
    show ?thesis
    proof (cases "key_text I a")
      case (Inl e')
      then have "e' = e" using fe by simp
      then show ?thesis
        using Inl by (cases a) (simp_all split: if_splits)
    next
      case (Inr s)
      then have "json_encode I (k - 1) v = Inl e"
        using fe by (simp split: sum.splits)
      then show ?thesis
        using 10(1) False av Inr by blast
    qed
  qed
qed (simp_all split: if_splits)

lemma int_within_limit:
  "\<bar>i\<bar> < 10 ^ n \<Longrightarrow> n \<le> int_max_str_digits I \<Longrightarrow> \<not> int_too_long I i"
proof -
  assume a: "\<bar>i\<bar> < 10 ^ n" and b: "n \<le> int_max_str_digits I"
  have "(10::int) ^ n \<le> 10 ^ int_max_str_digits I"
    using b by (intro power_increasing) simp_all
  then have "\<not> 10 ^ int_max_str_digits I \<le> \<bar>i\<bar>"
    using a by linarith
  then show ?thesis
    by (simp add: int_too_long_def)
qed

section \<open>\<open>create_message\<close>\<close>

lemma create_message_registered:
  "map_of MODEL_TYPE_MAP message_type \<noteq> None \<Longrightarrow>
     create_message I message_type data =
       (if nesting_limit I = 0 then Inl RecursionError
        else (case json_encode I (nesting_limit I - 1) data of
                Inl e \<Rightarrow> Inl e
              | Inr v \<Rightarrow>
                  Inr (Rendered (PDict [(''message_type'', PStr message_type), (''data'', v)]))))"
  by (cases "map_of MODEL_TYPE_MAP message_type")
    (simp_all add: create_message_def json_dumps_def dict_of_items_def split: sum.splits)

text \<open>
  Claim C7, as the code has it: \<open>create_message\<close> raises the unsupported-message-type
  \<open>ValueError\<close> exactly for a name that is not a key of the registry. For a key it
  validates nothing: it returns what \<open>json.dumps\<close> makes of the envelope, that is the
  exception of \<open>json.dumps\<close> when the data cannot be written, and otherwise the text
  of the envelope; for every structured data within the limits of the interpreter
  the text denotes the envelope of the name and this data.
\<close>

theorem create_message_envelope:
  "(create_message I message_type data =
      Inl (ValueError (UnsupportedMessageType (PStr message_type))) \<longleftrightarrow>
    message_type \<notin> registered_names) \<and>
   (message_type \<in> registered_names \<longrightarrow>
      create_message I message_type data =
        (if nesting_limit I = 0 then Inl RecursionError
         else (case json_encode I (nesting_limit I - 1) data of
                 Inl e \<Rightarrow> Inl e
               | Inr w \<Rightarrow>
                   Inr (Rendered (PDict [(''message_type'', PStr message_type),
                                         (''data'', w)]))))) \<and>
   (message_type \<in> registered_names \<and> nesting_limit I \<noteq> 0 \<and>
    json_plain I (nesting_limit I - 1) v \<longrightarrow>
      create_message I message_type (obj_of v) =
        Inr (Rendered (PDict [(''message_type'', PStr message_type), (''data'', v)])))"
proof (cases "map_of MODEL_TYPE_MAP message_type")
  case None
  then have "message_type \<notin> registered_names"
    using registry_keys [of message_type] by simp
  then show ?thesis
    using None by (simp add: create_message_def)
next
  case (Some c)
  then have r: "message_type \<in> registered_names"
    using registry_keys [of message_type] by simp
  have n: "map_of MODEL_TYPE_MAP message_type \<noteq> None"
    using Some by simp
  have "create_message I message_type data \<noteq>
      Inl (ValueError (UnsupportedMessageType (PStr message_type)))"
  proof
    assume a: "create_message I message_type data =
      Inl (ValueError (UnsupportedMessageType (PStr message_type)))"
    then have "json_encode I (nesting_limit I - 1) data =
        Inl (ValueError (UnsupportedMessageType (PStr message_type)))"
      unfolding create_message_registered [OF n] by (simp split: if_splits sum.splits)
    then show False
      using json_encode_errors by fastforce
  qed
  moreover have "json_plain I (nesting_limit I - 1) v \<Longrightarrow> nesting_limit I \<noteq> 0 \<Longrightarrow>
      create_message I message_type (obj_of v) =
        Inr (Rendered (PDict [(''message_type'', PStr message_type), (''data'', v)]))"
    by (simp add: create_message_registered [OF n] json_encode_plain)
  ultimately show ?thesis
    using r create_message_registered [OF n, of I data] by simp
qed

text \<open>
  At the key \<open>Action\<close> with a data dictionary that is no valid \<open>Action\<close>: the
  envelope is returned. At a name that is no key: the error.
\<close>

theorem create_message_envelope_witness:
  "''Action'' \<in> registered_names \<and> ''Visualization'' \<notin> registered_names \<and>
   nesting_limit sample_interpreter \<noteq> 0 \<and>
   json_plain sample_interpreter (nesting_limit sample_interpreter - 1)
     (PDict [(''actionType'', PInt 3)]) \<and>
   create_message sample_interpreter ''Action'' (obj_of (PDict [(''actionType'', PInt 3)])) =
     Inr (Rendered (PDict [(''message_type'', PStr ''Action''),
                           (''data'', PDict [(''actionType'', PInt 3)])])) \<and>
   create_message sample_interpreter ''Visualization''
     (obj_of (PDict [(''actionType'', PInt 3)])) =
     Inl (ValueError (UnsupportedMessageType (PStr ''Visualization'')))"
proof -
  have a: "''Action'' \<in> registered_names" and v: "''Visualization'' \<notin> registered_names"
    by (simp_all add: registered_names_eq)
  have i: "\<not> int_too_long sample_interpreter 3"
    using int_within_limit [of 3 1 sample_interpreter] by (simp add: sample_interpreter_def)
  have l: "nesting_limit sample_interpreter = 500"
    by (simp add: sample_interpreter_def)
  have p: "json_plain sample_interpreter (nesting_limit sample_interpreter - 1)
      (PDict [(''actionType'', PInt 3)])"
    using i by (simp add: l)
  show ?thesis
    using a v p l
      create_message_envelope [of sample_interpreter "''Action''"
        "obj_of (PDict [(''actionType'', PInt 3)])" "PDict [(''actionType'', PInt 3)]"]
      create_message_envelope [of sample_interpreter "''Visualization''"
        "obj_of (PDict [(''actionType'', PInt 3)])" "PDict [(''actionType'', PInt 3)]"]
    by (simp add: dict_of_items_def)
qed

text \<open>
  Claim C7 as stated fails: for the key \<open>Action\<close> and a data dictionary that holds a
  member of \<open>BlockingType\<close>, \<open>create_message\<close> returns no text; the \<open>TypeError\<close> of
  \<open>json.dumps\<close> leaves it.
\<close>

theorem create_message_counterexample:
  "''Action'' \<in> registered_names \<and>
   create_message sample_interpreter ''Action''
     (ODict [(KStr ''blockingType'', OInstance ''BlockingType'')]) = Inl TypeError"
proof -
  have "map_of MODEL_TYPE_MAP ''Action'' \<noteq> None"
    by (simp add: MODEL_TYPE_MAP_def)
  then show ?thesis
    by (simp add: create_message_registered registered_names_eq sample_interpreter_def)
qed

section \<open>\<open>to_model\<close> and \<open>from_model\<close>: failures\<close>

text \<open>
  Claim C3, as the code has it: the envelope with the unregistered name and the empty
  data fails at the check of line 65, with the missing-field message; with any data
  that is not empty the same name fails with the unsupported-message-type message.
\<close>

theorem unknown_type_decode:
  "to_model C M (Rendered (PDict [(''message_type'', PStr ''NotAType''), (''data'', PDict [])])) =
     Inl (ValueError (ToModelFailed (ValueError MissingEnvelopeField))) \<and>
   (truthy data \<longrightarrow>
      to_model C M (Rendered (PDict [(''message_type'', PStr ''NotAType''), (''data'', data)])) =
        Inl (ValueError (ToModelFailed
               (ValueError (UnsupportedMessageType (PStr ''NotAType''))))))"
  by (simp add: to_model_def to_model_try_def dict_get_def MODEL_TYPE_MAP_def)

theorem unknown_type_decode_witness:
  "truthy (PDict [(''k'', PInt 1)]) \<and>
   to_model no_coercions no_modules
     (Rendered (PDict [(''message_type'', PStr ''NotAType''), (''data'', PDict [])])) =
     Inl (ValueError (ToModelFailed (ValueError MissingEnvelopeField))) \<and>
   to_model no_coercions no_modules
     (Rendered (PDict [(''message_type'', PStr ''NotAType''),
                       (''data'', PDict [(''k'', PInt 1)])])) =
     Inl (ValueError (ToModelFailed (ValueError (UnsupportedMessageType (PStr ''NotAType'')))))"
  using unknown_type_decode [of no_coercions no_modules "PDict [(''k'', PInt 1)]"]
  by simp

text \<open>
  Claim C3 as stated fails: on the exact text of the claim the error is the
  missing-field one, not the unsupported-message-type one.
\<close>

theorem unknown_type_decode_counterexample:
  "to_model no_coercions no_modules
     (Rendered (PDict [(''message_type'', PStr ''NotAType''), (''data'', PDict [])])) =
     Inl (ValueError (ToModelFailed (ValueError MissingEnvelopeField))) \<and>
   to_model no_coercions no_modules
     (Rendered (PDict [(''message_type'', PStr ''NotAType''), (''data'', PDict [])])) \<noteq>
     Inl (ValueError (ToModelFailed (ValueError (UnsupportedMessageType (PStr ''NotAType'')))))"
  by (simp add: to_model_def to_model_try_def dict_get_def)

text \<open>
  Claim C10: whenever \<open>to_model\<close> or \<open>from_model\<close> fails, the exception that leaves
  the function is a \<open>ValueError\<close>; what went wrong is only in its message.
\<close>

theorem failures_are_ValueError:
  "(to_model C M json_str = Inl e \<longrightarrow> (\<exists>cause. e = ValueError (ToModelFailed cause))) \<and>
   (from_model I M model = Inl e' \<longrightarrow> (\<exists>cause. e' = ValueError (FromModelFailed cause)))"
  by (auto simp: to_model_def from_model_def split: sum.splits)

text \<open>
  A text that does not parse, and an object of an unregistered class: a
  \<open>JSONDecodeError\<close> and the \<open>ValueError\<close> of line 98 both leave as a \<open>ValueError\<close>.
\<close>

theorem failures_are_ValueError_witness:
  "to_model no_coercions no_modules Unparsable = Inl (ValueError (ToModelFailed JSONDecodeError)) \<and>
   from_model sample_interpreter no_modules (E_Foreign ''Visualization'' (Inr (PDict []))) =
     Inl (ValueError (FromModelFailed (ValueError (UnsupportedModelType ''Visualization'')))) \<and>
   (\<exists>cause. ValueError (ToModelFailed JSONDecodeError) = ValueError (ToModelFailed cause)) \<and>
   (\<exists>cause. ValueError (FromModelFailed (ValueError (UnsupportedModelType ''Visualization''))) =
      ValueError (FromModelFailed cause))"
proof -
  have t: "to_model no_coercions no_modules Unparsable =
      Inl (ValueError (ToModelFailed JSONDecodeError))"
    by (simp add: to_model_def to_model_try_def)
  have f: "from_model sample_interpreter no_modules
      (E_Foreign ''Visualization'' (Inr (PDict []))) =
      Inl (ValueError (FromModelFailed (ValueError (UnsupportedModelType ''Visualization''))))"
    by (simp add: from_model_def from_model_try_def MODEL_TYPE_MAP_def)
  show ?thesis
    using t f
      failures_are_ValueError [of no_coercions no_modules Unparsable
        "ValueError (ToModelFailed JSONDecodeError)" sample_interpreter
        "E_Foreign ''Visualization'' (Inr (PDict []))"
        "ValueError (FromModelFailed (ValueError (UnsupportedModelType ''Visualization'')))"]
    by simp
qed

section \<open>\<open>ControlPoint\<close>: the absent weight\<close>

text \<open>
  Claim C6, evaluated on the code: a \<open>ControlPoint\<close> built from \<open>x\<close> and \<open>y\<close> alone
  has the weight \<open>None\<close>, the default of the field, and not 1.0.
\<close>

theorem ControlPoint_weight_absent:
  "validate_ControlPoint C (PDict [(''x'', PFloat a), (''y'', PFloat b)]) =
     Inr \<lparr>cp_x = a, cp_y = b, weight = None\<rparr>"
  by (simp add: validate_ControlPoint_def required_def optional_def float_field_def)

section \<open>Enumerations in the registry\<close>

text \<open>
  Claim C8: \<open>BlockingType\<close> and \<open>CorridorRefPoint\<close> are keys of the registry, and an
  envelope that names one of them fails for every data that is not empty: the class
  is an \<open>Enum\<close> and has no \<open>model_validate\<close>.
\<close>

theorem enum_message_types_fail:
  assumes "dict_get env ''message_type'' = PStr n"
    and "n = ''BlockingType'' \<or> n = ''CorridorRefPoint''"
    and "truthy (dict_get env ''data'')"
  shows "map_of MODEL_TYPE_MAP n \<noteq> None \<and>
         to_model C M (Rendered (PDict env)) =
           Inl (ValueError (ToModelFailed (AttributeError ''model_validate'')))"
proof -
  have "n = ''BlockingType'' \<or> n = ''CorridorRefPoint''"
    by (rule assms(2))
  then obtain c where c: "map_of MODEL_TYPE_MAP n = Some c"
    and v: "model_validate C M c (dict_get env ''data'') = Inl (AttributeError ''model_validate'')"
  proof
    assume "n = ''BlockingType''"
    then have "map_of MODEL_TYPE_MAP n = Some Cls_BlockingType"
      by (simp add: MODEL_TYPE_MAP_def)
    then show ?thesis
      using that [of Cls_BlockingType] by simp
  next
    assume "n = ''CorridorRefPoint''"
    then have "map_of MODEL_TYPE_MAP n = Some Cls_CorridorRefPoint"
      by (simp add: MODEL_TYPE_MAP_def)
    then show ?thesis
      using that [of Cls_CorridorRefPoint] by simp
  qed
  have t: "n \<noteq> []"
    using assms(2) by fastforce
  have "to_model_try C M (Rendered (PDict env)) = Inl (AttributeError ''model_validate'')"
    by (simp add: to_model_try_def Let_def assms(1) assms(3) t c v)
  then have "to_model C M (Rendered (PDict env)) =
      Inl (ValueError (ToModelFailed (AttributeError ''model_validate'')))"
    by (simp add: to_model_def)
  moreover have "map_of MODEL_TYPE_MAP n \<noteq> None"
    using c by simp
  ultimately show ?thesis
    by simp
qed

theorem enum_message_types_fail_witness:
  "map_of MODEL_TYPE_MAP ''BlockingType'' \<noteq> None \<and>
   to_model no_coercions no_modules
     (Rendered (PDict [(''message_type'', PStr ''BlockingType''), (''data'', PStr ''HARD'')])) =
     Inl (ValueError (ToModelFailed (AttributeError ''model_validate'')))"
  using enum_message_types_fail
    [of "[(''message_type'', PStr ''BlockingType''), (''data'', PStr ''HARD'')]"
        "''BlockingType''" no_coercions no_modules]
  by (simp add: dict_get_def)

section \<open>\<open>NodePosition\<close>: the ranges of \<open>theta\<close> and \<open>allowedDeviationXY\<close>\<close>








section \<open>\<open>ActionParameter\<close>: the union of the field \<open>value\<close>\<close>

lemma strict_alternatives:
  "first_ok (map (\<lambda>t. strict_alt t v) value_alternatives) =
     (case v of
        PNone \<Rightarrow> None
      | PInt i \<Rightarrow> Some (PFloat (Fin (of_int i)))
      | _ \<Rightarrow> Some v)"
  by (cases v) (simp_all add: value_alternatives_def err_def)

lemma lax_alternatives_None:
  "first_ok (map (\<lambda>t. lax_alt C t PNone) value_alternatives) = None"
  by (simp add: value_alternatives_def err_def)

text \<open>
  Only the strict pass of the union ever yields a value: what no alternative matches
  structurally is \<open>None\<close>, which no alternative reads in lax mode either.
\<close>

lemma smart_union_strict:
  "smart_union C value_alternatives v = Inr r \<longleftrightarrow>
     first_ok (map (\<lambda>t. strict_alt t v) value_alternatives) = Some r"
proof (cases "v = PNone")
  case True
  then show ?thesis
    unfolding smart_union_def strict_alternatives
    by (simp add: lax_alternatives_None)
next
  case False
  then show ?thesis
    unfolding smart_union_def strict_alternatives
    by (cases v) auto
qed


section \<open>\<open>Trajectory\<close>: the lengths of the two lists\<close>

lemma list_items_all_ok:
  "list_all (\<lambda>x. \<not> isl (v x)) xs \<Longrightarrow>
     \<exists>ys. list_items v i xs = Inr ys \<and> length ys = length xs"
proof (induction xs arbitrary: i)
  case Nil
  then show ?case by simp
next
  case (Cons a as)
  then obtain r where r: "v a = Inr r"
    by (cases "v a") simp_all
  obtain ys where ys: "list_items v (Suc i) as = Inr ys" "length ys = length as"
    using Cons by auto
  show ?case
    by (simp add: r ys)
qed

text \<open>
  Claim C9: for every degree that is at least 1, every list of knots that are each
  accepted as a float, and every list of control points that are each accepted as a
  \<open>ControlPoint\<close>, the \<open>Trajectory\<close> is built, with this degree and with lists of the
  given lengths. No relation between the lengths is required, and the result is the
  entity alone: there is nothing that could carry a warning.
\<close>

theorem Trajectory_lengths_unchecked:
  assumes "1 \<le> d"
    and "list_all (\<lambda>k. \<not> isl (float_field C None None k)) ks"
    and "list_all (\<lambda>c. \<not> isl (validate_ControlPoint C c)) cps"
  shows "\<exists>kv cp.
           validate_Trajectory C
             (PDict [(''degree'', PInt d), (''knotVector'', PList ks),
                     (''controlPoints'', PList cps)]) =
             Inr \<lparr>degree = d, knotVector = kv, controlPoints = cp\<rparr> \<and>
           length kv = length ks \<and> length cp = length cps"
proof -
  obtain kv where kv: "list_items (float_field C None None) 0 ks = Inr kv"
      "length kv = length ks"
    using list_items_all_ok [OF assms(2)] by blast
  obtain cp where cp: "list_items (validate_ControlPoint C) 0 cps = Inr cp"
      "length cp = length cps"
    using list_items_all_ok [OF assms(3)] by blast
  have "validate_Trajectory C
          (PDict [(''degree'', PInt d), (''knotVector'', PList ks),
                  (''controlPoints'', PList cps)]) =
        Inr \<lparr>degree = d, knotVector = kv, controlPoints = cp\<rparr>"
    using assms(1)
    by (simp add: validate_Trajectory_def required_def int_field_def list_field_def kv cp)
  then show ?thesis
    using kv(2) cp(2) by blast
qed

text \<open>
  Degree 1, one knot and no control point: the lengths 1 and 0 do not satisfy
  \<open>len(knotVector) = len(controlPoints) + degree + 1\<close>, and the \<open>Trajectory\<close> is built.
\<close>

theorem Trajectory_lengths_unchecked_witness:
  "(1::int) \<le> 1 \<and>
   list_all (\<lambda>k. \<not> isl (float_field no_coercions None None k)) [PFloat (Fin 0)] \<and>
   list_all (\<lambda>c. \<not> isl (validate_ControlPoint no_coercions c)) [] \<and>
   length [PFloat (Fin 0)] \<noteq> length ([] :: pyval list) + nat 1 + 1 \<and>
   (\<exists>kv cp.
      validate_Trajectory no_coercions
        (PDict [(''degree'', PInt 1), (''knotVector'', PList [PFloat (Fin 0)]),
                (''controlPoints'', PList [])]) =
        Inr \<lparr>degree = 1, knotVector = kv, controlPoints = cp\<rparr> \<and>
      length kv = length [PFloat (Fin 0)] \<and> length cp = length ([] :: pyval list))"
  using Trajectory_lengths_unchecked [of 1 no_coercions "[PFloat (Fin 0)]" "[]"]
  by (simp add: float_field_def)

section \<open>Round trip\<close>

subsection \<open>What a successful validation says about its result\<close>

lemma at_loc_Inr: "at_loc l r = Inr x \<longleftrightarrow> r = Inr x"
  by (cases r) auto

lemma required_Inr: "required d k v = Inr r \<Longrightarrow> \<exists>a. v a = Inr r"
  by (auto simp: required_def at_loc_Inr split: option.splits)

lemma optional_Inr:
  "optional d k v = Inr r \<Longrightarrow> r = None \<or> (\<exists>a x. v a = Inr x \<and> r = Some x)"
  by (auto simp: optional_def at_loc_Inr split: option.splits if_splits sum.splits)

lemma list_items_Inr: "list_items v i xs = Inr ys \<Longrightarrow> \<forall>y\<in>set ys. \<exists>x. v x = Inr y"
proof (induction xs arbitrary: i ys)
  case Nil
  then show ?case by simp
next
  case (Cons a as)
  from Cons.prems obtain r rs where r: "at_loc (Idx i) (v a) = Inr r"
    and rs: "list_items v (Suc i) as = Inr rs" and ys: "ys = r # rs"
    by (auto split: sum.splits)
  have "v a = Inr r"
    using r by (simp add: at_loc_Inr)
  then show ?case
    using Cons.IH [OF rs] ys by auto
qed

lemma list_field_Inr: "list_field v a = Inr ys \<Longrightarrow> \<forall>y\<in>set ys. \<exists>x. v x = Inr y"
  by (cases a) (auto simp: list_field_def err_def dest: list_items_Inr)

subsection \<open>Validation of a dumped field\<close>

lemma required_back: "map_of dd k = Some a \<Longrightarrow> v a = Inr x \<Longrightarrow> required dd k v = Inr x"
  by (simp add: required_def)

lemma optional_back_None: "map_of dd k = Some PNone \<Longrightarrow> optional dd k v = Inr None"
  by (simp add: optional_def)

lemma optional_back_Some:
  "map_of dd k = Some a \<Longrightarrow> a \<noteq> PNone \<Longrightarrow> v a = Inr x \<Longrightarrow> optional dd k v = Inr (Some x)"
  by (simp add: optional_def)

lemma float_field_back:
  "float_field C0 ge le a = Inr f \<Longrightarrow> finite_float f \<Longrightarrow>
     float_field C ge le (json_float f) = Inr f"
  by (cases f) (auto simp: float_field_def err_def split: sum.splits if_splits)

lemma req_float_back:
  assumes "required d k (float_field C0 ge le) = Inr f"
    and "finite_float f"
    and "map_of dd k' = Some (json_float f)"
  shows "required dd k' (float_field C ge le) = Inr f"
proof -
  obtain a where "float_field C0 ge le a = Inr f"
    using required_Inr [OF assms(1)] by blast
  then have "float_field C ge le (json_float f) = Inr f"
    using assms(2) by (rule float_field_back)
  then show ?thesis
    using assms(3) by (rule required_back [rotated])
qed

lemma opt_float_back:
  assumes "optional d k (float_field C0 ge le) = Inr r"
    and "finite_opt r"
    and "map_of dd k' = Some (json_opt json_float r)"
  shows "optional dd k' (float_field C ge le) = Inr r"
proof (cases r)
  case None
  then show ?thesis
    using assms(3) by (simp add: json_opt_def optional_back_None)
next
  case (Some f)
  then obtain a where a: "float_field C0 ge le a = Inr f"
    using optional_Inr [OF assms(1)] by auto
  have f: "finite_float f"
    using assms(2) Some by (simp add: finite_opt_def)
  have b: "float_field C ge le (json_float f) = Inr f"
    using a f by (rule float_field_back)
  have n: "json_float f \<noteq> PNone"
    using f by (cases f) simp_all
  show ?thesis
    using assms(3) n b by (simp add: Some json_opt_def optional_back_Some)
qed

lemma req_str_back: "map_of dd k = Some (PStr s) \<Longrightarrow> required dd k str_field = Inr s"
  by (simp add: required_def)

lemma opt_str_back: "map_of dd k = Some (json_opt PStr r) \<Longrightarrow> optional dd k str_field = Inr r"
  by (cases r) (simp_all add: optional_def json_opt_def)

lemma BlockingType_back: "BlockingType_field (PStr (BlockingType_value b)) = Inr b"
  by (cases b) (simp_all add: BlockingType_field_def)

lemma CorridorRefPoint_back: "CorridorRefPoint_field (PStr (CorridorRefPoint_value p)) = Inr p"
  by (cases p) (simp_all add: CorridorRefPoint_field_def)

lemma opt_CorridorRefPoint_back:
  "map_of dd k = Some (json_opt (\<lambda>p. PStr (CorridorRefPoint_value p)) r) \<Longrightarrow>
     optional dd k CorridorRefPoint_field = Inr r"
  by (cases r) (simp_all add: optional_def json_opt_def CorridorRefPoint_back)

lemma int_field_back: "int_field C0 ge a = Inr i \<Longrightarrow> int_field C ge (PInt i) = Inr i"
  by (auto simp: int_field_def err_def split: sum.splits if_splits option.splits)

lemma list_items_back:
  "(\<And>y. y \<in> set ys \<Longrightarrow> v (enc y) = Inr y) \<Longrightarrow> list_items v i (map enc ys) = Inr ys"
  by (induction ys arbitrary: i) simp_all

lemma list_field_back:
  "(\<And>y. y \<in> set ys \<Longrightarrow> v (enc y) = Inr y) \<Longrightarrow> list_field v (PList (map enc ys)) = Inr ys"
  by (simp add: list_field_def list_items_back)

lemma smart_union_back:
  assumes "smart_union C0 value_alternatives a = Inr r"
  shows "smart_union C value_alternatives r = Inr r"
proof -
  have "first_ok (map (\<lambda>t. strict_alt t a) value_alternatives) = Some r"
    using assms by (simp add: smart_union_strict)
  then have "r \<noteq> PNone \<and> (\<forall>i. r \<noteq> PInt i)"
    unfolding strict_alternatives by (cases a) auto
  then have "first_ok (map (\<lambda>t. strict_alt t r) value_alternatives) = Some r"
    unfolding strict_alternatives by (cases r) auto
  then show ?thesis
    by (simp add: smart_union_strict)
qed

subsection \<open>Validation of a dumped entity\<close>

lemma revalidate_ActionParameter:
  assumes "validate_ActionParameter C0 a = Inr p" and "finite_ActionParameter p"
  shows "validate_ActionParameter C (dump_ActionParameter p) = Inr p"
proof -
  have "\<exists>d. required d ''value'' (smart_union C0 value_alternatives) = Inr (pvalue p)"
    using assms(1)
    by (cases a) (auto simp: validate_ActionParameter_def err_def Let_def split: sum.splits)
  then obtain d where d: "required d ''value'' (smart_union C0 value_alternatives) =
      Inr (pvalue p)"
    by blast
  obtain b where "smart_union C0 value_alternatives b = Inr (pvalue p)"
    using required_Inr [OF d] by blast
  then have "smart_union C value_alternatives (pvalue p) = Inr (pvalue p)"
    by (rule smart_union_back)
  moreover have "json_any (pvalue p) = pvalue p"
    using assms(2) by (simp add: finite_ActionParameter_def)
  ultimately show ?thesis
    by (simp add: validate_ActionParameter_def dump_ActionParameter_def required_def)
qed

lemma revalidate_Action:
  assumes "validate_Action C0 a = Inr t" and "finite_Action t"
  shows "validate_Action C (dump_Action t) = Inr t"
proof -
  define dd where "dd =
    [(''actionType'', PStr (actionType t)),
     (''actionId'', PStr (actionId t)),
     (''actionDescription'', json_opt PStr (actionDescription t)),
     (''blockingType'', PStr (BlockingType_value (blockingType t))),
     (''actionParameters'',
        json_opt (\<lambda>ps. PList (map dump_ActionParameter ps)) (actionParameters t))]"
  have "\<exists>d. optional d ''actionParameters'' (list_field (validate_ActionParameter C0)) =
      Inr (actionParameters t)"
    using assms(1)
    by (cases a) (auto simp: validate_Action_def err_def Let_def split: sum.splits)
  then obtain d where ps: "optional d ''actionParameters''
      (list_field (validate_ActionParameter C0)) = Inr (actionParameters t)"
    by blast
  have f1: "required dd ''actionType'' str_field = Inr (actionType t)"
    by (rule req_str_back) (simp add: dd_def)
  have f2: "required dd ''actionId'' str_field = Inr (actionId t)"
    by (rule req_str_back) (simp add: dd_def)
  have f3: "optional dd ''actionDescription'' str_field = Inr (actionDescription t)"
    by (rule opt_str_back) (simp add: dd_def)
  have f4: "required dd ''blockingType'' BlockingType_field = Inr (blockingType t)"
    by (rule required_back [where a = "PStr (BlockingType_value (blockingType t))"])
      (simp_all add: dd_def BlockingType_back)
  have f5: "optional dd ''actionParameters'' (list_field (validate_ActionParameter C)) =
      Inr (actionParameters t)"
  proof (cases "actionParameters t")
    case None
    then show ?thesis
      by (simp add: optional_def dd_def json_opt_def)
  next
    case (Some ys)
    then obtain b where "list_field (validate_ActionParameter C0) b = Inr ys"
      using optional_Inr [OF ps] by auto
    then have o: "\<forall>y\<in>set ys. \<exists>x. validate_ActionParameter C0 x = Inr y"
      by (rule list_field_Inr)
    have "list_field (validate_ActionParameter C) (PList (map dump_ActionParameter ys)) = Inr ys"
    proof (rule list_field_back)
      fix y
      assume y: "y \<in> set ys"
      then obtain x where "validate_ActionParameter C0 x = Inr y"
        using o by blast
      moreover have "finite_ActionParameter y"
        using assms(2) Some y by (simp add: finite_Action_def list_all_iff)
      ultimately show "validate_ActionParameter C (dump_ActionParameter y) = Inr y"
        by (rule revalidate_ActionParameter)
    qed
    then show ?thesis
      by (simp add: optional_def dd_def json_opt_def Some)
  qed
  have "validate_Action C (PDict dd) = Inr t"
    unfolding validate_Action_def pyval.case f1 f2 f3 f4 f5 by simp
  then show ?thesis
    by (simp add: dump_Action_def dd_def)
qed

lemma revalidate_NodePosition:
  assumes "validate_NodePosition C0 a = Inr n" and "finite_NodePosition n"
  shows "validate_NodePosition C (dump_NodePosition n) = Inr n"
proof -
  define dd where "dd =
    [(''x'', json_float (pos_x n)),
     (''y'', json_float (pos_y n)),
     (''theta'', json_opt json_float (theta n)),
     (''allowedDeviationXY'', json_opt json_float (allowedDeviationXY n)),
     (''allowedDeviationTheta'', json_opt json_float (allowedDeviationTheta n)),
     (''mapId'', PStr (mapId n)),
     (''mapDescription'', json_opt PStr (mapDescription n))]"
  have "\<exists>d. required d ''x'' (float_field C0 None None) = Inr (pos_x n) \<and>
      required d ''y'' (float_field C0 None None) = Inr (pos_y n) \<and>
      optional d ''theta'' (float_field C0 (Some (- 3.14159265359)) (Some 3.14159265359)) =
        Inr (theta n) \<and>
      optional d ''allowedDeviationXY'' (float_field C0 (Some 0.0) None) =
        Inr (allowedDeviationXY n) \<and>
      optional d ''allowedDeviationTheta'' (float_field C0 (Some 0.0) (Some 3.141592654)) =
        Inr (allowedDeviationTheta n)"
    using assms(1)
    by (cases a) (auto simp: validate_NodePosition_def err_def Let_def split: sum.splits)
  then obtain d where px: "required d ''x'' (float_field C0 None None) = Inr (pos_x n)"
    and py: "required d ''y'' (float_field C0 None None) = Inr (pos_y n)"
    and th: "optional d ''theta''
      (float_field C0 (Some (- 3.14159265359)) (Some 3.14159265359)) = Inr (theta n)"
    and dxy: "optional d ''allowedDeviationXY'' (float_field C0 (Some 0.0) None) =
      Inr (allowedDeviationXY n)"
    and dth: "optional d ''allowedDeviationTheta''
      (float_field C0 (Some 0.0) (Some 3.141592654)) = Inr (allowedDeviationTheta n)"
    by blast
  have fin: "finite_float (pos_x n)" "finite_float (pos_y n)" "finite_opt (theta n)"
    "finite_opt (allowedDeviationXY n)" "finite_opt (allowedDeviationTheta n)"
    using assms(2) by (simp_all add: finite_NodePosition_def)
  have f1: "required dd ''x'' (float_field C None None) = Inr (pos_x n)"
    by (rule req_float_back [OF px fin(1)]) (simp add: dd_def)
  have f2: "required dd ''y'' (float_field C None None) = Inr (pos_y n)"
    by (rule req_float_back [OF py fin(2)]) (simp add: dd_def)
  have f3: "optional dd ''theta''
      (float_field C (Some (- 3.14159265359)) (Some 3.14159265359)) = Inr (theta n)"
    by (rule opt_float_back [OF th fin(3)]) (simp add: dd_def)
  have f4: "optional dd ''allowedDeviationXY'' (float_field C (Some 0.0) None) =
      Inr (allowedDeviationXY n)"
    by (rule opt_float_back [OF dxy fin(4)]) (simp add: dd_def)
  have f5: "optional dd ''allowedDeviationTheta''
      (float_field C (Some 0.0) (Some 3.141592654)) = Inr (allowedDeviationTheta n)"
    by (rule opt_float_back [OF dth fin(5)]) (simp add: dd_def)
  have f6: "required dd ''mapId'' str_field = Inr (mapId n)"
    by (rule req_str_back) (simp add: dd_def)
  have f7: "optional dd ''mapDescription'' str_field = Inr (mapDescription n)"
    by (rule opt_str_back) (simp add: dd_def)
  have "validate_NodePosition C (PDict dd) = Inr n"
    unfolding validate_NodePosition_def pyval.case f1 f2 f3 f4 f5 f6 f7 by simp
  then show ?thesis
    by (simp add: dump_NodePosition_def dd_def)
qed

lemma revalidate_ControlPoint:
  assumes "validate_ControlPoint C0 a = Inr c" and "finite_ControlPoint c"
  shows "validate_ControlPoint C (dump_ControlPoint c) = Inr c"
proof -
  define dd where "dd =
    [(''x'', json_float (cp_x c)),
     (''y'', json_float (cp_y c)),
     (''weight'', json_opt json_float (weight c))]"
  have "\<exists>d. required d ''x'' (float_field C0 None None) = Inr (cp_x c) \<and>
      required d ''y'' (float_field C0 None None) = Inr (cp_y c) \<and>
      optional d ''weight'' (float_field C0 (Some 0.0) None) = Inr (weight c)"
    using assms(1)
    by (cases a) (auto simp: validate_ControlPoint_def err_def Let_def split: sum.splits)
  then obtain d where px: "required d ''x'' (float_field C0 None None) = Inr (cp_x c)"
    and py: "required d ''y'' (float_field C0 None None) = Inr (cp_y c)"
    and w: "optional d ''weight'' (float_field C0 (Some 0.0) None) = Inr (weight c)"
    by blast
  have fin: "finite_float (cp_x c)" "finite_float (cp_y c)" "finite_opt (weight c)"
    using assms(2) by (simp_all add: finite_ControlPoint_def)
  have f1: "required dd ''x'' (float_field C None None) = Inr (cp_x c)"
    by (rule req_float_back [OF px fin(1)]) (simp add: dd_def)
  have f2: "required dd ''y'' (float_field C None None) = Inr (cp_y c)"
    by (rule req_float_back [OF py fin(2)]) (simp add: dd_def)
  have f3: "optional dd ''weight'' (float_field C (Some 0.0) None) = Inr (weight c)"
    by (rule opt_float_back [OF w fin(3)]) (simp add: dd_def)
  have "validate_ControlPoint C (PDict dd) = Inr c"
    unfolding validate_ControlPoint_def pyval.case f1 f2 f3 by simp
  then show ?thesis
    by (simp add: dump_ControlPoint_def dd_def)
qed

lemma revalidate_Corridor:
  assumes "validate_Corridor C0 a = Inr c" and "finite_Corridor c"
  shows "validate_Corridor C (dump_Corridor c) = Inr c"
proof -
  define dd where "dd =
    [(''leftWidth'', json_float (leftWidth c)),
     (''rightWidth'', json_float (rightWidth c)),
     (''corridorRefPoint'',
        json_opt (\<lambda>p. PStr (CorridorRefPoint_value p)) (corridorRefPoint c))]"
  have "\<exists>d. required d ''leftWidth'' (float_field C0 (Some 0.0) None) = Inr (leftWidth c) \<and>
      required d ''rightWidth'' (float_field C0 (Some 0.0) None) = Inr (rightWidth c)"
    using assms(1)
    by (cases a) (auto simp: validate_Corridor_def err_def Let_def split: sum.splits)
  then obtain d where l: "required d ''leftWidth'' (float_field C0 (Some 0.0) None) =
      Inr (leftWidth c)"
    and r: "required d ''rightWidth'' (float_field C0 (Some 0.0) None) = Inr (rightWidth c)"
    by blast
  have fin: "finite_float (leftWidth c)" "finite_float (rightWidth c)"
    using assms(2) by (simp_all add: finite_Corridor_def)
  have f1: "required dd ''leftWidth'' (float_field C (Some 0.0) None) = Inr (leftWidth c)"
    by (rule req_float_back [OF l fin(1)]) (simp add: dd_def)
  have f2: "required dd ''rightWidth'' (float_field C (Some 0.0) None) = Inr (rightWidth c)"
    by (rule req_float_back [OF r fin(2)]) (simp add: dd_def)
  have f3: "optional dd ''corridorRefPoint'' CorridorRefPoint_field = Inr (corridorRefPoint c)"
    by (rule opt_CorridorRefPoint_back) (simp add: dd_def)
  have "validate_Corridor C (PDict dd) = Inr c"
    unfolding validate_Corridor_def pyval.case f1 f2 f3 by simp
  then show ?thesis
    by (simp add: dump_Corridor_def dd_def)
qed

lemma revalidate_Trajectory:
  assumes "validate_Trajectory C0 a = Inr t" and "finite_Trajectory t"
  shows "validate_Trajectory C (dump_Trajectory t) = Inr t"
proof -
  define dd where "dd =
    [(''degree'', PInt (degree t)),
     (''knotVector'', PList (map json_float (knotVector t))),
     (''controlPoints'', PList (map dump_ControlPoint (controlPoints t)))]"
  have "\<exists>d. required d ''degree'' (int_field C0 (Some 1)) = Inr (degree t) \<and>
      required d ''knotVector'' (list_field (float_field C0 None None)) = Inr (knotVector t) \<and>
      required d ''controlPoints'' (list_field (validate_ControlPoint C0)) =
        Inr (controlPoints t)"
    using assms(1)
    by (cases a) (auto simp: validate_Trajectory_def err_def Let_def split: sum.splits)
  then obtain d where dg: "required d ''degree'' (int_field C0 (Some 1)) = Inr (degree t)"
    and kv: "required d ''knotVector'' (list_field (float_field C0 None None)) =
      Inr (knotVector t)"
    and cps: "required d ''controlPoints'' (list_field (validate_ControlPoint C0)) =
      Inr (controlPoints t)"
    by blast
  obtain a1 where "int_field C0 (Some 1) a1 = Inr (degree t)"
    using required_Inr [OF dg] by blast
  then have "int_field C (Some 1) (PInt (degree t)) = Inr (degree t)"
    by (rule int_field_back)
  then have f1: "required dd ''degree'' (int_field C (Some 1)) = Inr (degree t)"
    by (rule required_back [rotated]) (simp add: dd_def)
  obtain a2 where "list_field (float_field C0 None None) a2 = Inr (knotVector t)"
    using required_Inr [OF kv] by blast
  then have k: "\<forall>y\<in>set (knotVector t). \<exists>x. float_field C0 None None x = Inr y"
    by (rule list_field_Inr)
  have "list_field (float_field C None None) (PList (map json_float (knotVector t))) =
      Inr (knotVector t)"
  proof (rule list_field_back)
    fix y
    assume y: "y \<in> set (knotVector t)"
    then obtain x where "float_field C0 None None x = Inr y"
      using k by blast
    moreover have "finite_float y"
      using assms(2) y by (simp add: finite_Trajectory_def list_all_iff)
    ultimately show "float_field C None None (json_float y) = Inr y"
      by (rule float_field_back)
  qed
  then have f2: "required dd ''knotVector'' (list_field (float_field C None None)) =
      Inr (knotVector t)"
    by (rule required_back [rotated]) (simp add: dd_def)
  obtain a3 where "list_field (validate_ControlPoint C0) a3 = Inr (controlPoints t)"
    using required_Inr [OF cps] by blast
  then have c: "\<forall>y\<in>set (controlPoints t). \<exists>x. validate_ControlPoint C0 x = Inr y"
    by (rule list_field_Inr)
  have "list_field (validate_ControlPoint C) (PList (map dump_ControlPoint (controlPoints t))) =
      Inr (controlPoints t)"
  proof (rule list_field_back)
    fix y
    assume y: "y \<in> set (controlPoints t)"
    then obtain x where "validate_ControlPoint C0 x = Inr y"
      using c by blast
    moreover have "finite_ControlPoint y"
      using assms(2) y by (simp add: finite_Trajectory_def list_all_iff)
    ultimately show "validate_ControlPoint C (dump_ControlPoint y) = Inr y"
      by (rule revalidate_ControlPoint)
  qed
  then have f3: "required dd ''controlPoints'' (list_field (validate_ControlPoint C)) =
      Inr (controlPoints t)"
    by (rule required_back [rotated]) (simp add: dd_def)
  have "validate_Trajectory C (PDict dd) = Inr t"
    unfolding validate_Trajectory_def pyval.case f1 f2 f3 by simp
  then show ?thesis
    by (simp add: dump_Trajectory_def dd_def)
qed

subsection \<open>The envelope\<close>

lemma json_dumps_envelope:
  "nesting_limit I \<noteq> 0 \<Longrightarrow> json_plain I (nesting_limit I - 1) d \<Longrightarrow>
     json_dumps I (ODict [(KStr ''message_type'', OStr n), (KStr ''data'', obj_of d)]) =
       Inr (Rendered (PDict [(''message_type'', PStr n), (''data'', d)]))"
  by (simp add: json_dumps_def json_encode_plain dict_of_items_def)

lemma round_trip_envelope:
  assumes "map_of MODEL_TYPE_MAP (class_name e) = Some cls"
    and "model_dump_json M e = Inr d"
    and "truthy d"
    and "model_validate C M cls d = Inr e"
    and "dump_within_limits I M e"
  shows "from_model I M e =
           Inr (Rendered (PDict [(''message_type'', PStr (class_name e)), (''data'', d)])) \<and>
         to_model C M (Rendered (PDict [(''message_type'', PStr (class_name e)), (''data'', d)])) =
           Inr e"
proof -
  have l: "nesting_limit I \<noteq> 0" "json_plain I (nesting_limit I - 1) d"
    using assms(5) by (simp_all add: dump_within_limits_def assms(2))
  have n: "class_name e \<noteq> []"
    using assms(1) by (auto simp: MODEL_TYPE_MAP_def split: if_splits)
  have "from_model_try I M e =
      Inr (Rendered (PDict [(''message_type'', PStr (class_name e)), (''data'', d)]))"
    by (simp add: from_model_try_def Let_def assms(1) assms(2) json_dumps_envelope [OF l])
  moreover have "to_model_try C M
      (Rendered (PDict [(''message_type'', PStr (class_name e)), (''data'', d)])) = Inr e"
    by (simp add: to_model_try_def Let_def dict_get_def n assms(1) assms(3) assms(4))
  ultimately show ?thesis
    by (simp add: from_model_def to_model_def)
qed

lemma imported_registered: "map_of MODEL_TYPE_MAP (imported_name c) = Some (Cls_Imported c)"
  by (cases c) (simp_all add: MODEL_TYPE_MAP_def)

lemma round_trip_class:
  assumes "map_of MODEL_TYPE_MAP (class_name e) = Some cls"
    and "model_dump_json M e = Inr d"
    and "truthy d"
    and "model_validate C M cls d = Inr e"
    and "dump_within_limits I M e"
  shows "class_name e \<in> registered_names \<and>
         (\<exists>d. from_model I M e =
                 Inr (Rendered (PDict [(''message_type'', PStr (class_name e)), (''data'', d)])) \<and>
               to_model C M
                 (Rendered (PDict [(''message_type'', PStr (class_name e)), (''data'', d)])) =
                 Inr e)"
proof -
  have "class_name e \<in> registered_names"
    using registry_keys [of "class_name e"] assms(1) by simp
  then show ?thesis
    using round_trip_envelope [OF assms] by blast
qed

text \<open>
  Claim C1, as the code has it: let \<open>e\<close> be what the class of a registered name makes
  of some input, let its dump keep its values (no float that is not finite; for an
  imported class, a dump that is not empty and that the class reads back), and let the
  dump be within the limits of the interpreter. Then \<open>from_model\<close> returns a text whose
  \<open>message_type\<close> is the name of the class of \<open>e\<close>, a key of the registry, and
  \<open>to_model\<close> makes \<open>e\<close> of this text.
\<close>

theorem round_trip:
  assumes "model_validate C0 M cls a = Inr e"
    and "keeps_values M e"
    and "dump_within_limits I M e"
  shows "class_name e \<in> registered_names \<and>
         (\<exists>d. from_model I M e =
                 Inr (Rendered (PDict [(''message_type'', PStr (class_name e)), (''data'', d)])) \<and>
               to_model C M
                 (Rendered (PDict [(''message_type'', PStr (class_name e)), (''data'', d)])) =
                 Inr e)"
proof (cases cls)
  case Cls_Action
  then obtain t where t: "validate_Action C0 a = Inr t" and e: "e = E_Action t"
    using assms(1) by (auto simp: lift_validation_def split: sum.splits)
  have "validate_Action C (dump_Action t) = Inr t"
    using t assms(2) unfolding e by (simp add: revalidate_Action)
  then have "model_validate C M Cls_Action (dump_Action t) = Inr e"
    by (simp add: lift_validation_def e)
  then show ?thesis
    using assms(3)
    by (intro round_trip_class [where cls = Cls_Action and d = "dump_Action t"])
      (simp_all add: e MODEL_TYPE_MAP_def dump_Action_def)
next
  case Cls_ActionParameter
  then obtain t where t: "validate_ActionParameter C0 a = Inr t" and e: "e = E_ActionParameter t"
    using assms(1) by (auto simp: lift_validation_def split: sum.splits)
  have "validate_ActionParameter C (dump_ActionParameter t) = Inr t"
    using t assms(2) unfolding e by (simp add: revalidate_ActionParameter)
  then have "model_validate C M Cls_ActionParameter (dump_ActionParameter t) = Inr e"
    by (simp add: lift_validation_def e)
  then show ?thesis
    using assms(3)
    by (intro round_trip_class
          [where cls = Cls_ActionParameter and d = "dump_ActionParameter t"])
      (simp_all add: e MODEL_TYPE_MAP_def dump_ActionParameter_def)
next
  case Cls_BlockingType
  then show ?thesis
    using assms(1) by simp
next
  case Cls_ControlPoint
  then obtain t where t: "validate_ControlPoint C0 a = Inr t" and e: "e = E_ControlPoint t"
    using assms(1) by (auto simp: lift_validation_def split: sum.splits)
  have "validate_ControlPoint C (dump_ControlPoint t) = Inr t"
    using t assms(2) unfolding e by (simp add: revalidate_ControlPoint)
  then have "model_validate C M Cls_ControlPoint (dump_ControlPoint t) = Inr e"
    by (simp add: lift_validation_def e)
  then show ?thesis
    using assms(3)
    by (intro round_trip_class [where cls = Cls_ControlPoint and d = "dump_ControlPoint t"])
      (simp_all add: e MODEL_TYPE_MAP_def dump_ControlPoint_def)
next
  case Cls_Corridor
  then obtain t where t: "validate_Corridor C0 a = Inr t" and e: "e = E_Corridor t"
    using assms(1) by (auto simp: lift_validation_def split: sum.splits)
  have "validate_Corridor C (dump_Corridor t) = Inr t"
    using t assms(2) unfolding e by (simp add: revalidate_Corridor)
  then have "model_validate C M Cls_Corridor (dump_Corridor t) = Inr e"
    by (simp add: lift_validation_def e)
  then show ?thesis
    using assms(3)
    by (intro round_trip_class [where cls = Cls_Corridor and d = "dump_Corridor t"])
      (simp_all add: e MODEL_TYPE_MAP_def dump_Corridor_def)
next
  case Cls_CorridorRefPoint
  then show ?thesis
    using assms(1) by simp
next
  case Cls_NodePosition
  then obtain t where t: "validate_NodePosition C0 a = Inr t" and e: "e = E_NodePosition t"
    using assms(1) by (auto simp: lift_validation_def split: sum.splits)
  have "validate_NodePosition C (dump_NodePosition t) = Inr t"
    using t assms(2) unfolding e by (simp add: revalidate_NodePosition)
  then have "model_validate C M Cls_NodePosition (dump_NodePosition t) = Inr e"
    by (simp add: lift_validation_def e)
  then show ?thesis
    using assms(3)
    by (intro round_trip_class [where cls = Cls_NodePosition and d = "dump_NodePosition t"])
      (simp_all add: e MODEL_TYPE_MAP_def dump_NodePosition_def)
next
  case Cls_Trajectory
  then obtain t where t: "validate_Trajectory C0 a = Inr t" and e: "e = E_Trajectory t"
    using assms(1) by (auto simp: lift_validation_def split: sum.splits)
  have "validate_Trajectory C (dump_Trajectory t) = Inr t"
    using t assms(2) unfolding e by (simp add: revalidate_Trajectory)
  then have "model_validate C M Cls_Trajectory (dump_Trajectory t) = Inr e"
    by (simp add: lift_validation_def e)
  then show ?thesis
    using assms(3)
    by (intro round_trip_class [where cls = Cls_Trajectory and d = "dump_Trajectory t"])
      (simp_all add: e MODEL_TYPE_MAP_def dump_Trajectory_def)
next
  case (Cls_Imported c)
  then obtain x where e: "e = E_Imported c x"
    using assms(1) by (auto split: sum.splits)
  obtain d where d: "imported_dump M c x = Inr d" and t: "truthy d"
    and v: "imported_validate M c d = Inr x"
    using assms(2) unfolding e by (auto split: sum.splits)
  have "model_validate C M (Cls_Imported c) d = Inr e"
    by (simp add: v e)
  then show ?thesis
    using assms(3) t
    by (intro round_trip_class [where cls = "Cls_Imported c" and d = d])
      (simp_all add: e d imported_registered)
qed

text \<open>
  A \<open>ControlPoint\<close> built from \<open>x = 1.0\<close> and \<open>y = 2\<close>: the text and the entity that
  is read back from it.
\<close>

theorem round_trip_witness:
  "model_validate no_coercions no_modules Cls_ControlPoint
     (PDict [(''x'', PFloat (Fin 1)), (''y'', PInt 2)]) =
     Inr (E_ControlPoint \<lparr>cp_x = Fin 1, cp_y = Fin 2, weight = None\<rparr>) \<and>
   keeps_values no_modules (E_ControlPoint \<lparr>cp_x = Fin 1, cp_y = Fin 2, weight = None\<rparr>) \<and>
   dump_within_limits sample_interpreter no_modules
     (E_ControlPoint \<lparr>cp_x = Fin 1, cp_y = Fin 2, weight = None\<rparr>) \<and>
   from_model sample_interpreter no_modules
     (E_ControlPoint \<lparr>cp_x = Fin 1, cp_y = Fin 2, weight = None\<rparr>) =
     Inr (Rendered (PDict [(''message_type'', PStr ''ControlPoint''),
                           (''data'', PDict [(''x'', PFloat (Fin 1)), (''y'', PFloat (Fin 2)),
                                             (''weight'', PNone)])])) \<and>
   to_model no_coercions no_modules
     (Rendered (PDict [(''message_type'', PStr ''ControlPoint''),
                       (''data'', PDict [(''x'', PFloat (Fin 1)), (''y'', PFloat (Fin 2)),
                                         (''weight'', PNone)])])) =
     Inr (E_ControlPoint \<lparr>cp_x = Fin 1, cp_y = Fin 2, weight = None\<rparr>)"
proof -
  let ?e = "E_ControlPoint \<lparr>cp_x = Fin 1, cp_y = Fin 2, weight = None\<rparr> :: unit entity"
  have v: "model_validate no_coercions no_modules Cls_ControlPoint
      (PDict [(''x'', PFloat (Fin 1)), (''y'', PInt 2)]) = Inr ?e"
    by (simp add: lift_validation_def validate_ControlPoint_def required_def optional_def
        float_field_def)
  have k: "keeps_values no_modules ?e"
    by (simp add: finite_ControlPoint_def finite_opt_def)
  have l: "dump_within_limits sample_interpreter no_modules ?e"
    by (simp add: dump_within_limits_def dump_ControlPoint_def json_opt_def
        sample_interpreter_def)
  have f: "from_model sample_interpreter no_modules ?e =
      Inr (Rendered (PDict [(''message_type'', PStr ''ControlPoint''),
                            (''data'', PDict [(''x'', PFloat (Fin 1)), (''y'', PFloat (Fin 2)),
                                              (''weight'', PNone)])]))"
    by (simp add: from_model_def from_model_try_def MODEL_TYPE_MAP_def json_dumps_def
        sample_interpreter_def dict_of_items_def dump_ControlPoint_def json_opt_def)
  show ?thesis
    using v k l f round_trip [OF v k l, of no_coercions] by auto
qed

text \<open>
  Claim C1 as stated fails. A \<open>ControlPoint\<close> with \<open>x\<close> infinite passes validation; its
  \<open>x\<close> is written as \<open>null\<close>, and \<open>to_model\<close> refuses the text. A member of
  \<open>BlockingType\<close>, a registered name, has no \<open>model_dump_json\<close>: \<open>from_model\<close> fails.
\<close>

theorem round_trip_counterexample:
  "model_validate no_coercions no_modules Cls_ControlPoint
     (PDict [(''x'', PFloat PosInf), (''y'', PFloat (Fin 0))]) =
     Inr (E_ControlPoint \<lparr>cp_x = PosInf, cp_y = Fin 0, weight = None\<rparr>) \<and>
   from_model sample_interpreter no_modules
     (E_ControlPoint \<lparr>cp_x = PosInf, cp_y = Fin 0, weight = None\<rparr>) =
     Inr (Rendered (PDict [(''message_type'', PStr ''ControlPoint''),
                           (''data'', PDict [(''x'', PNone), (''y'', PFloat (Fin 0)),
                                             (''weight'', PNone)])])) \<and>
   to_model no_coercions no_modules
     (Rendered (PDict [(''message_type'', PStr ''ControlPoint''),
                       (''data'', PDict [(''x'', PNone), (''y'', PFloat (Fin 0)),
                                         (''weight'', PNone)])])) =
     Inl (ValueError (ToModelFailed (ValidationError [([Key ''x''], ''float_type'')]))) \<and>
   from_model sample_interpreter no_modules (E_BlockingType HARD) =
     Inl (ValueError (FromModelFailed (AttributeError ''model_dump_json'')))"
proof -
  have v: "model_validate no_coercions no_modules Cls_ControlPoint
      (PDict [(''x'', PFloat PosInf), (''y'', PFloat (Fin 0))]) =
      Inr (E_ControlPoint \<lparr>cp_x = PosInf, cp_y = Fin 0, weight = None\<rparr>)"
    by (simp add: lift_validation_def validate_ControlPoint_def required_def optional_def
        float_field_def)
  have f: "from_model sample_interpreter no_modules
      (E_ControlPoint \<lparr>cp_x = PosInf, cp_y = Fin 0, weight = None\<rparr>) =
      Inr (Rendered (PDict [(''message_type'', PStr ''ControlPoint''),
                            (''data'', PDict [(''x'', PNone), (''y'', PFloat (Fin 0)),
                                              (''weight'', PNone)])]))"
    by (simp add: from_model_def from_model_try_def MODEL_TYPE_MAP_def json_dumps_def
        sample_interpreter_def dict_of_items_def dump_ControlPoint_def json_opt_def)
  have t: "to_model no_coercions no_modules
      (Rendered (PDict [(''message_type'', PStr ''ControlPoint''),
                        (''data'', PDict [(''x'', PNone), (''y'', PFloat (Fin 0)),
                                          (''weight'', PNone)])])) =
      Inl (ValueError (ToModelFailed (ValidationError [([Key ''x''], ''float_type'')])))"
    by (simp add: to_model_def to_model_try_def dict_get_def MODEL_TYPE_MAP_def
        lift_validation_def validate_ControlPoint_def required_def optional_def
        float_field_def err_def)
  have b: "from_model sample_interpreter no_modules (E_BlockingType HARD) =
      Inl (ValueError (FromModelFailed (AttributeError ''model_dump_json'')))"
    by (simp add: from_model_def from_model_try_def MODEL_TYPE_MAP_def)
  show ?thesis
    using v f t b by simp
qed

end
